theory Spec2Isabelle
  imports Complex_Main "HOL-Library.Sublist" "HOL-Library.Word"
begin

unbundle bit_operations_syntax

section \<open>Values shared by the services\<close>

text \<open>
  Every timestamp the offline store writes comes from \<^verbatim>\<open>new Date().toISOString()\<close>, a
  fixed-width UTC string whose lexicographic order is the chronological one. A timestamp is
  modelled as the number of milliseconds since the epoch, which is also what
  \<^verbatim>\<open>Date.now()\<close> and \<^verbatim>\<open>getTime()\<close> return, and the string comparisons of the source
  (\<^verbatim>\<open>item.expires_at > now\<close>) become comparisons of numbers. Each operation reads the
  clock once; the reading is the argument \<open>now\<close>.
\<close>

type_synonym timestamp = nat

text \<open>Values of type \<^verbatim>\<open>any\<close> and \<^verbatim>\<open>Json\<close> (types/supabase.ts).\<close>

datatype json =
    JNull
  | JBool bool
  | JNum int
  | JStr string
  | JArr "json list"
  | JObj "(string \<times> json) list"

text \<open>JavaScript truthiness, as \<^verbatim>\<open>cached?.data || null\<close> tests it.\<close>

fun truthy :: "json \<Rightarrow> bool" where
  "truthy JNull = False"
| "truthy (JBool b) = b"
| "truthy (JNum n) = (n \<noteq> 0)"
| "truthy (JStr s) = (s \<noteq> [])"
| "truthy (JArr xs) = True"
| "truthy (JObj kvs) = True"

text \<open>What the source throws and catches; every thrown value carries a \<^verbatim>\<open>message\<close>.\<close>

datatype failure =
    SchemaError string
  | ConstraintError string
  | ModifyError string
  | DataError string
  | GatewayError string

fun message :: "failure \<Rightarrow> string" where
  "message (SchemaError m) = m"
| "message (ConstraintError m) = m"
| "message (ModifyError m) = m"
| "message (DataError m) = m"
| "message (GatewayError m) = m"

text \<open>Decimal rendering of a number inside a template string.\<close>

definition digit_char :: "nat \<Rightarrow> char" where
  "digit_char d = (''0123456789abcdefghijklmnopqrstuvwxyz'' ! d)"

function to_base :: "nat \<Rightarrow> nat \<Rightarrow> string" where
  "to_base b n =
     (if b < 2 \<or> n < b then [digit_char n]
      else to_base b (n div b) @ [digit_char (n mod b)])"
  by pat_completeness auto
termination
  by (relation "measure snd") auto

definition dec :: "nat \<Rightarrow> string" where
  "dec n = to_base 10 n"

section \<open>The Dexie tables behind \<^verbatim>\<open>offlineDB\<close>\<close>

text \<open>
  Modelled from the spec: the Dexie library (class \<^verbatim>\<open>Table\<close>, behind every
  \<^verbatim>\<open>offlineDB.<table>\<close>) is a dependency and not part of the sources. A table is the
  list of its rows, keyed by the primary key \<open>key\<close>, at most one row per key.
  \<^item> \<^verbatim>\<open>put\<close> is create-or-replace by primary key;
  \<^item> \<^verbatim>\<open>add\<close> fails when the key is taken;
  \<^item> \<^verbatim>\<open>delete\<close> and \<^verbatim>\<open>bulkDelete\<close> remove rows physically;
  \<^item> \<^verbatim>\<open>update(key, changes)\<close> changes the row stored under \<open>key\<close> and does nothing
    when there is none. When the changes move the primary key, the row is swapped:
    the copy with the new key is inserted and the row under the old key is deleted
    (the spec's "delete placeholder, insert synced copy"); when the new key is taken
    the insertion fails, the old row stays and the call is rejected. The changes are
    a function on rows that yields \<open>None\<close> when they set the primary key to
    \<^verbatim>\<open>undefined\<close>: a row without a primary key cannot be stored, the old row stays
    and the call is rejected;
  \<^item> \<^verbatim>\<open>where(name)\<close> needs \<open>name\<close> to be the primary key or an index declared in
    \<^verbatim>\<open>version(1).stores\<close>; on any other property the query is rejected with a
    schema error ("KeyPath ... is not indexed").
\<close>

definition get_row :: "('r \<Rightarrow> string) \<Rightarrow> 'r list \<Rightarrow> string \<Rightarrow> 'r option" where
  "get_row key t k = find (\<lambda>r. key r = k) t"

definition put_row :: "('r \<Rightarrow> string) \<Rightarrow> 'r list \<Rightarrow> 'r \<Rightarrow> 'r list" where
  "put_row key t r =
     (if key r \<in> key ` set t then map (\<lambda>x. if key x = key r then r else x) t
      else t @ [r])"

definition add_row :: "('r \<Rightarrow> string) \<Rightarrow> 'r list \<Rightarrow> 'r \<Rightarrow> failure + 'r list" where
  "add_row key t r =
     (if key r \<in> key ` set t then Inl (ConstraintError ''Key already exists in the object store.'')
      else Inr (t @ [r]))"

definition delete_row :: "('r \<Rightarrow> string) \<Rightarrow> 'r list \<Rightarrow> string \<Rightarrow> 'r list" where
  "delete_row key t k = filter (\<lambda>r. key r \<noteq> k) t"

definition bulkDelete :: "('r \<Rightarrow> string) \<Rightarrow> 'r list \<Rightarrow> string list \<Rightarrow> 'r list" where
  "bulkDelete key t ks = filter (\<lambda>r. key r \<notin> set ks) t"

definition update_row ::
  "('r \<Rightarrow> string) \<Rightarrow> 'r list \<Rightarrow> string \<Rightarrow> ('r \<Rightarrow> 'r option) \<Rightarrow> failure + 'r list" where
  "update_row key t k changes =
     (case get_row key t k of
        None \<Rightarrow> Inr t
      | Some r \<Rightarrow>
          (case changes r of
             None \<Rightarrow> Inl (DataError ''Evaluating the key path of the object store did not yield a value'')
           | Some r' \<Rightarrow>
               if key r' = k then Inr (map (\<lambda>x. if key x = k then r' else x) t)
               else (case add_row key t r' of
                       Inl e \<Rightarrow> Inl (ModifyError ''Error modifying one or more objects'')
                     | Inr t' \<Rightarrow> Inr (delete_row key t' k))))"

definition not_indexed :: "string \<Rightarrow> string \<Rightarrow> failure" where
  "not_indexed name store_name =
     SchemaError (''KeyPath '' @ name @ '' on object store '' @ store_name @ '' is not indexed'')"

definition where_equals ::
  "string \<times> string list \<Rightarrow> string \<Rightarrow> ('r \<Rightarrow> 'v) \<Rightarrow> 'v \<Rightarrow> 'r list \<Rightarrow> failure + 'r list" where
  "where_equals schema name field v t =
     (if name \<in> set (snd schema) then Inr (filter (\<lambda>r. field r = v) t)
      else Inl (not_indexed name (fst schema)))"

definition where_below ::
  "string \<times> string list \<Rightarrow> string \<Rightarrow> ('r \<Rightarrow> nat) \<Rightarrow> nat \<Rightarrow> 'r list \<Rightarrow> failure + 'r list" where
  "where_below schema name field v t =
     (if name \<in> set (snd schema) then Inr (filter (\<lambda>r. field r < v) t)
      else Inl (not_indexed name (fst schema)))"

definition first :: "'r list \<Rightarrow> 'r option" where
  "first t = (case t of [] \<Rightarrow> None | r # _ \<Rightarrow> Some r)"

section \<open>The offline database (services/offlineService)\<close>

datatype sync_status = Synced | Pending | Error

datatype table_name = Documents | Projects | Standard_info

datatype operation = Create | Update | Delete

fun table_str :: "table_name \<Rightarrow> string" where
  "table_str Documents = ''documents''"
| "table_str Projects = ''projects''"
| "table_str Standard_info = ''standard_info''"

text \<open>
  The fields the three \<^verbatim>\<open>Offline*\<close> interfaces have in common, among them the sync
  envelope; each interface then extends them with its own fields.
\<close>

record offline_base =
  id' :: string
  user_id :: string
  is_public :: bool
  tags :: "string list option"
  created_at :: string
  updated_at :: string
  sync_status :: sync_status
  last_sync_at :: "timestamp option"
  local_updated_at :: timestamp

record offline_document = offline_base +
  title :: string
  content :: string
  project_id :: string
  version :: int
  metadata :: "json option"
  deleted_at :: "string option"

record offline_project = offline_base +
  name :: string
  description :: "string option"
  metadata :: "json option"
  deleted_at :: "string option"

record offline_standard_info = offline_base +
  title :: string
  content :: string
  category :: string
  embedding :: "string option"

text \<open>The \<^verbatim>\<open>data\<close> of a queue item is the object handed to \<^verbatim>\<open>addToSyncQueue\<close>.\<close>

datatype queue_data =
    DocumentData offline_document
  | ProjectData offline_project
  | StandardInfoData offline_standard_info
  | KeyData string string

fun data_id :: "queue_data \<Rightarrow> string" where
  "data_id (DocumentData d) = offline_base.id' d"
| "data_id (ProjectData p) = offline_base.id' p"
| "data_id (StandardInfoData s) = offline_base.id' s"
| "data_id (KeyData i u) = i"

fun data_user_id :: "queue_data \<Rightarrow> string" where
  "data_user_id (DocumentData d) = offline_base.user_id d"
| "data_user_id (ProjectData p) = offline_base.user_id p"
| "data_user_id (StandardInfoData s) = offline_base.user_id s"
| "data_user_id (KeyData i u) = u"

record sync_queue_item =
  id' :: string
  table :: table_name
  operation :: operation
  data :: queue_data
  original_id :: string
  user_id :: string
  created_at :: timestamp
  retry_count :: nat
  last_error :: "string option"

record offline_cache =
  id' :: string
  key :: string
  data :: json
  expires_at :: timestamp
  created_at :: timestamp

text \<open>What \<^verbatim>\<open>getSyncStats\<close> returns.\<close>

record table_stats =
  total :: nat
  synced :: nat
  pending :: nat
  error :: nat

record sync_stats =
  documents :: table_stats
  projects :: table_stats
  standardInfo :: table_stats
  syncQueue :: nat
  lastSyncAt :: "nat option"

record store =
  documents :: "offline_document list"
  projects :: "offline_project list"
  standard_info :: "offline_standard_info list"
  sync_queue :: "sync_queue_item list"
  cache :: "offline_cache list"

text \<open>The schema of \<^verbatim>\<open>version(1).stores\<close>: store name, then primary key and indexes.\<close>

definition documents_schema :: "string \<times> string list" where
  "documents_schema =
     (''documents'', [''id'', ''project_id'', ''user_id'', ''sync_status'', ''local_updated_at''])"

definition projects_schema :: "string \<times> string list" where
  "projects_schema = (''projects'', [''id'', ''user_id'', ''sync_status'', ''local_updated_at''])"

definition standard_info_schema :: "string \<times> string list" where
  "standard_info_schema =
     (''standard_info'', [''id'', ''user_id'', ''category'', ''sync_status'', ''local_updated_at''])"

definition sync_queue_schema :: "string \<times> string list" where
  "sync_queue_schema =
     (''sync_queue'', [''id'', ''table'', ''operation'', ''user_id'', ''created_at''])"

definition cache_schema :: "string \<times> string list" where
  "cache_schema = (''cache'', [''id'', ''key'', ''expires_at''])"

subsection \<open>The sync queue\<close>

definition addToSyncQueue ::
  "table_name \<Rightarrow> operation \<Rightarrow> queue_data \<Rightarrow> timestamp \<Rightarrow> store
     \<Rightarrow> (failure + sync_queue_item) \<times> store" where
  "addToSyncQueue tbl op d now st =
     (let queueItem = \<lparr> sync_queue_item.id' = table_str tbl @ ''_'' @ data_id d @ ''_'' @ dec now,
                        table = tbl,
                        operation = op,
                        sync_queue_item.data = d,
                        original_id = data_id d,
                        sync_queue_item.user_id = data_user_id d,
                        sync_queue_item.created_at = now,
                        retry_count = 0,
                        last_error = None \<rparr>
      in case add_row sync_queue_item.id' (sync_queue st) queueItem of
           Inl e \<Rightarrow> (Inl e, st)
         | Inr q \<Rightarrow> (Inr queueItem, st\<lparr>sync_queue := q\<rparr>))"

definition getPendingSyncItems :: "string \<Rightarrow> store \<Rightarrow> failure + sync_queue_item list" where
  "getPendingSyncItems userId st =
     where_equals sync_queue_schema ''user_id'' sync_queue_item.user_id userId (sync_queue st)"

subsection \<open>Local writes\<close>

definition saveDocumentOffline ::
  "offline_document \<Rightarrow> timestamp \<Rightarrow> store \<Rightarrow> (failure + offline_document) \<times> store" where
  "saveDocumentOffline document now st =
     (let offlineDoc = document\<lparr>sync_status := Pending, last_sync_at := None,
                                local_updated_at := now\<rparr>;
          st1 = st\<lparr>documents := put_row offline_base.id' (documents st) offlineDoc\<rparr>
      in case addToSyncQueue Documents
                (if offline_base.id' document \<noteq> [] then Update else Create)
                (DocumentData offlineDoc) now st1 of
           (Inl e, st2) \<Rightarrow> (Inl e, st2)
         | (Inr q, st2) \<Rightarrow> (Inr offlineDoc, st2))"

definition saveProjectOffline ::
  "offline_project \<Rightarrow> timestamp \<Rightarrow> store \<Rightarrow> (failure + offline_project) \<times> store" where
  "saveProjectOffline project now st =
     (let offlineProject = project\<lparr>sync_status := Pending, last_sync_at := None,
                                   local_updated_at := now\<rparr>;
          st1 = st\<lparr>projects := put_row offline_base.id' (projects st) offlineProject\<rparr>
      in case addToSyncQueue Projects
                (if offline_base.id' project \<noteq> [] then Update else Create)
                (ProjectData offlineProject) now st1 of
           (Inl e, st2) \<Rightarrow> (Inl e, st2)
         | (Inr q, st2) \<Rightarrow> (Inr offlineProject, st2))"

definition saveStandardInfoOffline ::
  "offline_standard_info \<Rightarrow> timestamp \<Rightarrow> store
     \<Rightarrow> (failure + offline_standard_info) \<times> store" where
  "saveStandardInfoOffline info now st =
     (let offlineStandard = info\<lparr>sync_status := Pending, last_sync_at := None,
                                         local_updated_at := now\<rparr>;
          st1 = st\<lparr>standard_info :=
                     put_row offline_base.id' (standard_info st) offlineStandard\<rparr>
      in case addToSyncQueue Standard_info
                (if offline_base.id' info \<noteq> [] then Update else Create)
                (StandardInfoData offlineStandard) now st1 of
           (Inl e, st2) \<Rightarrow> (Inl e, st2)
         | (Inr q, st2) \<Rightarrow> (Inr offlineStandard, st2))"

subsection \<open>Reads by owner\<close>

definition getUserOfflineDocuments :: "string \<Rightarrow> store \<Rightarrow> failure + offline_document list" where
  "getUserOfflineDocuments userId st =
     where_equals documents_schema ''user_id'' offline_base.user_id userId (documents st)"

definition getUserOfflineProjects :: "string \<Rightarrow> store \<Rightarrow> failure + offline_project list" where
  "getUserOfflineProjects userId st =
     where_equals projects_schema ''user_id'' offline_base.user_id userId (projects st)"

definition getUserOfflineStandardInfo ::
  "string \<Rightarrow> store \<Rightarrow> failure + offline_standard_info list" where
  "getUserOfflineStandardInfo userId st =
     where_equals standard_info_schema ''user_id'' offline_base.user_id userId (standard_info st)"

subsection \<open>The generic cache\<close>

definition setCache :: "string \<Rightarrow> json \<Rightarrow> nat \<Rightarrow> timestamp \<Rightarrow> store \<Rightarrow> store" where
  "setCache k d ttlMinutes now st =
     st\<lparr>store.cache :=
          put_row offline_cache.id' (store.cache st)
            \<lparr> offline_cache.id' = k @ ''_'' @ dec now,
              key = k,
              offline_cache.data = d,
              expires_at = now + ttlMinutes * 60 * 1000,
              offline_cache.created_at = now \<rparr>\<rparr>"

definition getCache :: "string \<Rightarrow> timestamp \<Rightarrow> store \<Rightarrow> failure + json option" where
  "getCache k now st =
     (case where_equals cache_schema ''key'' offline_cache.key k (cache st) of
        Inl e \<Rightarrow> Inl e
      | Inr rows \<Rightarrow>
          (case first (filter (\<lambda>item. expires_at item > now) rows) of
             None \<Rightarrow> Inr None
           | Some cached \<Rightarrow>
               Inr (if truthy (offline_cache.data cached)
                    then Some (offline_cache.data cached) else None)))"

definition clearExpiredCache :: "timestamp \<Rightarrow> store \<Rightarrow> (failure + unit) \<times> store" where
  "clearExpiredCache now st =
     (case where_below cache_schema ''expires_at'' expires_at now (cache st) of
        Inl e \<Rightarrow> (Inl e, st)
      | Inr expired \<Rightarrow>
          (Inr (), st\<lparr>cache := bulkDelete offline_cache.id' (cache st)
                                  (map offline_cache.id' expired)\<rparr>))"

subsection \<open>Deleting a document\<close>

definition deleteDocument ::
  "string \<Rightarrow> string \<Rightarrow> timestamp \<Rightarrow> store \<Rightarrow> (failure + unit) \<times> store" where
  "deleteDocument userId documentId now st =
     (let st1 = st\<lparr>documents := delete_row offline_base.id' (documents st) documentId\<rparr>
      in case addToSyncQueue Documents Delete (KeyData documentId userId) now st1 of
           (Inl e, st2) \<Rightarrow> (Inl e, st2)
         | (Inr q, st2) \<Rightarrow> (Inr (), st2))"

subsection \<open>Sync status and statistics\<close>

text \<open>Sequencing of operations that may throw: the first failure ends the sequence.\<close>

definition and_then ::
  "('s \<Rightarrow> (failure + unit) \<times> 's) \<Rightarrow> ('s \<Rightarrow> (failure + unit) \<times> 's)
     \<Rightarrow> 's \<Rightarrow> (failure + unit) \<times> 's" where
  "and_then f g s = (case f s of (Inl e, s') \<Rightarrow> (Inl e, s') | (Inr u, s') \<Rightarrow> g s')"

fun for_each ::
  "('x \<Rightarrow> 's \<Rightarrow> (failure + unit) \<times> 's) \<Rightarrow> 'x list \<Rightarrow> 's \<Rightarrow> (failure + unit) \<times> 's" where
  "for_each body [] s = (Inr (), s)"
| "for_each body (x # xs) s = and_then (body x) (for_each body xs) s"

text \<open>
  The changes \<^verbatim>\<open>{ sync_status: status, last_sync_at: status === 'synced' ? now : null }\<close>.
\<close>

definition status_changes ::
  "sync_status \<Rightarrow> timestamp \<Rightarrow> 'a offline_base_scheme \<Rightarrow> 'a offline_base_scheme option" where
  "status_changes status now r =
     Some (r\<lparr>sync_status := status,
              last_sync_at := (if status = Synced then Some now else None)\<rparr>)"

definition bump_retry :: "string option \<Rightarrow> sync_queue_item \<Rightarrow> store \<Rightarrow> (failure + unit) \<times> store" where
  "bump_retry err item st =
     (case update_row sync_queue_item.id' (sync_queue st) (sync_queue_item.id' item)
             (\<lambda>q. Some (q\<lparr>last_error := err, retry_count := retry_count item + 1\<rparr>)) of
        Inl e \<Rightarrow> (Inl e, st)
      | Inr q \<Rightarrow> (Inr (), st\<lparr>sync_queue := q\<rparr>))"

definition updateSyncStatus ::
  "table_name \<Rightarrow> string \<Rightarrow> sync_status \<Rightarrow> string option \<Rightarrow> timestamp \<Rightarrow> store
     \<Rightarrow> (failure + unit) \<times> store" where
  "updateSyncStatus tbl i status err now st =
     (case (case tbl of
              Documents \<Rightarrow>
                map_sum id (\<lambda>t. st\<lparr>documents := t\<rparr>)
                  (update_row offline_base.id' (documents st) i (status_changes status now))
            | Projects \<Rightarrow>
                map_sum id (\<lambda>t. st\<lparr>projects := t\<rparr>)
                  (update_row offline_base.id' (projects st) i (status_changes status now))
            | Standard_info \<Rightarrow>
                map_sum id (\<lambda>t. st\<lparr>standard_info := t\<rparr>)
                  (update_row offline_base.id' (standard_info st) i (status_changes status now))) of
        Inl e \<Rightarrow> (Inl e, st)
      | Inr st1 \<Rightarrow>
          (if (case err of None \<Rightarrow> False | Some m \<Rightarrow> m \<noteq> []) then
             (case where_equals sync_queue_schema ''original_id'' original_id i (sync_queue st1) of
                Inl e \<Rightarrow> (Inl e, st1)
              | Inr queueItems \<Rightarrow> for_each (bump_retry err) queueItems st1)
           else (Inr (), st1)))"

definition count_status :: "sync_status \<Rightarrow> 'a offline_base_scheme list \<Rightarrow> nat" where
  "count_status s rows = length (filter (\<lambda>r. sync_status r = s) rows)"

definition stats_of :: "'a offline_base_scheme list \<Rightarrow> table_stats" where
  "stats_of rows =
     \<lparr> total = length rows,
       synced = count_status Synced rows,
       pending = count_status Pending rows,
       error = count_status Error rows \<rparr>"

text \<open>
  \<^verbatim>\<open>new Date(d.last_sync_at || 0).getTime()\<close> and \<^verbatim>\<open>Math.max(...)\<close> of the results,
  which are never negative.
\<close>

definition sync_time :: "'a offline_base_scheme \<Rightarrow> nat" where
  "sync_time d = (case last_sync_at d of None \<Rightarrow> 0 | Some t \<Rightarrow> t)"

definition math_max :: "nat list \<Rightarrow> nat" where
  "math_max xs = foldr max xs 0"

definition getSyncStats :: "string \<Rightarrow> store \<Rightarrow> failure + sync_stats" where
  "getSyncStats userId st =
     (case getUserOfflineDocuments userId st of
        Inl e \<Rightarrow> Inl e
      | Inr docs \<Rightarrow>
     (case getUserOfflineProjects userId st of
        Inl e \<Rightarrow> Inl e
      | Inr projs \<Rightarrow>
     (case getUserOfflineStandardInfo userId st of
        Inl e \<Rightarrow> Inl e
      | Inr stds \<Rightarrow>
     (case getPendingSyncItems userId st of
        Inl e \<Rightarrow> Inl e
      | Inr queue \<Rightarrow>
          Inr \<lparr> sync_stats.documents = stats_of docs,
                sync_stats.projects = stats_of projs,
                standardInfo = stats_of stds,
                syncQueue = length queue,
                lastSyncAt = (if length docs > 0 then Some (math_max (map sync_time docs))
                              else None) \<rparr>))))"

section \<open>The remote gateway\<close>

text \<open>
  Modelled from the spec: the remote store (the Supabase client) is an external
  collaborator. A remote write is an update of the row with a given identifier or the
  insertion of a row, with the fields sent. The gateway answers the \<open>n\<close>-th remote write of
  a cycle with an error message or with the identifier of the row it returns; the three
  list fetches answer with an error message or the user's rows. Of a fetched row only
  the columns are meaningful: the pull overwrites the three envelope fields.
\<close>

datatype remote_call =
    UpdateRow table_name string "(string \<times> json) list"
  | InsertRow table_name "(string \<times> json) list"

record gateway =
  respond :: "nat \<Rightarrow> remote_call \<Rightarrow> string + string"
  getUserProjects :: "string \<Rightarrow> string + offline_project list"
  getUserDocuments :: "string \<Rightarrow> string + offline_document list"
  getUserStandardInfo :: "string \<Rightarrow> string + offline_standard_info list"

definition tags_json :: "string list option \<Rightarrow> json" where
  "tags_json ts = (case ts of None \<Rightarrow> JNull | Some xs \<Rightarrow> JArr (map JStr xs))"

definition any_json :: "json option \<Rightarrow> json" where
  "any_json v = (case v of None \<Rightarrow> JNull | Some j \<Rightarrow> j)"

definition string_json :: "string option \<Rightarrow> json" where
  "string_json v = (case v of None \<Rightarrow> JNull | Some s \<Rightarrow> JStr s)"

text \<open>
  services/databaseService: \<^verbatim>\<open>documentService\<close> and \<^verbatim>\<open>standardInfoService\<close> throw the
  gateway's error and return the row otherwise.
\<close>

definition throwing_call ::
  "gateway \<Rightarrow> remote_call \<Rightarrow> remote_call list \<Rightarrow> (failure + string) \<times> remote_call list" where
  "throwing_call gw c calls =
     (case respond gw (length calls) c of
        Inl m \<Rightarrow> (Inl (GatewayError m), calls @ [c])
      | Inr i \<Rightarrow> (Inr i, calls @ [c]))"

definition updateDocument ::
  "gateway \<Rightarrow> string \<Rightarrow> (string \<times> json) list \<Rightarrow> remote_call list
     \<Rightarrow> (failure + string) \<times> remote_call list" where
  "updateDocument gw i updates calls = throwing_call gw (UpdateRow Documents i updates) calls"

definition createDocument ::
  "gateway \<Rightarrow> (string \<times> json) list \<Rightarrow> remote_call list
     \<Rightarrow> (failure + string) \<times> remote_call list" where
  "createDocument gw document calls = throwing_call gw (InsertRow Documents document) calls"

definition updateStandardInfo ::
  "gateway \<Rightarrow> string \<Rightarrow> (string \<times> json) list \<Rightarrow> remote_call list
     \<Rightarrow> (failure + string) \<times> remote_call list" where
  "updateStandardInfo gw i updates calls = throwing_call gw (UpdateRow Standard_info i updates) calls"

definition createStandardInfo ::
  "gateway \<Rightarrow> (string \<times> json) list \<Rightarrow> remote_call list
     \<Rightarrow> (failure + string) \<times> remote_call list" where
  "createStandardInfo gw info calls = throwing_call gw (InsertRow Standard_info info) calls"

text \<open>
  services/projectService: the class \<^verbatim>\<open>ProjectService\<close> never throws; it returns a
  \<^verbatim>\<open>ProjectServiceResponse\<close> \<^verbatim>\<open>{ data, error }\<close>. Its \<open>data\<close> is the row, of which the model
  keeps the identifier. \<^verbatim>\<open>updateProject\<close> adds \<^verbatim>\<open>updated_at\<close> to the fields it is given;
  \<^verbatim>\<open>createProject\<close> sends the six fields of \<^verbatim>\<open>projectData\<close>, owned by the session's
  user \<open>uid\<close>. A missing session is one of the gateway's error answers.
\<close>

record project_service_response =
  data :: "string option"
  error :: "string option"

definition response_of :: "string + string \<Rightarrow> project_service_response" where
  "response_of r =
     (case r of
        Inl m \<Rightarrow> \<lparr> project_service_response.data = None, project_service_response.error = Some m \<rparr>
      | Inr i \<Rightarrow> \<lparr> project_service_response.data = Some i, project_service_response.error = None \<rparr>)"

definition updateProject ::
  "gateway \<Rightarrow> timestamp \<Rightarrow> string \<Rightarrow> (string \<times> json) list \<Rightarrow> remote_call list
     \<Rightarrow> project_service_response \<times> remote_call list" where
  "updateProject gw now i d calls =
     (let c = UpdateRow Projects i (d @ [(''updated_at'', JNum (int now))])
      in (response_of (respond gw (length calls) c), calls @ [c]))"

definition or_null :: "json option \<Rightarrow> json" where
  "or_null v = (case v of None \<Rightarrow> JNull | Some j \<Rightarrow> j)"

definition createProject ::
  "gateway \<Rightarrow> string \<Rightarrow> (string \<times> json) list \<Rightarrow> remote_call list
     \<Rightarrow> project_service_response \<times> remote_call list" where
  "createProject gw uid d calls =
     (let projectData =
            [(''name'', or_null (map_of d ''name'')),
             (''description'',
                (case map_of d ''description'' of
                   Some v \<Rightarrow> if truthy v then v else JStr []
                 | None \<Rightarrow> JStr [])),
             (''user_id'', JStr uid),
             (''is_public'',
                (case map_of d ''is_public'' of
                   Some JNull \<Rightarrow> JBool False
                 | Some v \<Rightarrow> v
                 | None \<Rightarrow> JBool False)),
             (''tags'', or_null (map_of d ''tags'')),
             (''metadata'', or_null (map_of d ''metadata''))];
          c = InsertRow Projects projectData
      in (response_of (respond gw (length calls) c), calls @ [c]))"

text \<open>
  \<^verbatim>\<open>(newProject as any).id\<close>: a \<^verbatim>\<open>ProjectServiceResponse\<close> has the properties
  \<^verbatim>\<open>data\<close> and \<^verbatim>\<open>error\<close> and no \<^verbatim>\<open>id\<close>; reading it yields \<^verbatim>\<open>undefined\<close>.
\<close>

definition any_id :: "project_service_response \<Rightarrow> string option" where
  "any_id newProject = None"

section \<open>The sync engine (hooks/useOfflineSync)\<close>

record SyncState =
  isOnline :: bool
  isSyncing :: bool
  lastSyncAt :: "timestamp option"
  syncError :: "string option"
  syncStats :: "sync_stats option"

text \<open>
  The state a cycle works on: the offline database and the remote writes issued so far.
\<close>

type_synonym world = "store \<times> remote_call list"

text \<open>
  The end of each loop body. \<open>attempt\<close> is the outcome of the remote call and of the
  identifier swap inside \<^verbatim>\<open>try\<close>. When it went through, the record is marked synced,
  still inside \<^verbatim>\<open>try\<close>; whatever was thrown inside \<^verbatim>\<open>try\<close> is caught, and the handler
  marks the record as failed with the message of what it caught. What the handler itself
  throws leaves the loop.
\<close>

definition settle_push ::
  "table_name \<Rightarrow> string \<Rightarrow> timestamp \<Rightarrow> (failure + unit) \<times> world \<Rightarrow> (failure + unit) \<times> world" where
  "settle_push tbl i now attempt =
     (case attempt of
        (Inr u, st1, calls1) \<Rightarrow>
          (case updateSyncStatus tbl i Synced None now st1 of
             (Inr u, st2) \<Rightarrow> (Inr (), st2, calls1)
           | (Inl e, st2) \<Rightarrow>
               (case updateSyncStatus tbl i Error (Some (message e)) now st2 of
                  (r, st3) \<Rightarrow> (r, st3, calls1)))
      | (Inl e, st1, calls1) \<Rightarrow>
          (case updateSyncStatus tbl i Error (Some (message e)) now st1 of
             (r, st2) \<Rightarrow> (r, st2, calls1)))"

definition is_server_id :: "string \<Rightarrow> bool" where
  "is_server_id i = (i \<noteq> [] \<and> \<not> prefix ''temp_'' i)"

definition pushProject ::
  "gateway \<Rightarrow> string \<Rightarrow> timestamp \<Rightarrow> offline_project \<Rightarrow> world \<Rightarrow> (failure + unit) \<times> world" where
  "pushProject gw uid now project w =
     (case w of (st, calls) \<Rightarrow>
        settle_push Projects (offline_base.id' project) now
          (if is_server_id (offline_base.id' project) then
             (case updateProject gw now (offline_base.id' project)
                     [(''name'', JStr (name project)),
                      (''description'', string_json (description project)),
                      (''is_public'', JBool (is_public project)),
                      (''tags'', tags_json (tags project)),
                      (''metadata'', any_json (offline_project.metadata project))] calls of
                (response, calls1) \<Rightarrow> (Inr (), st, calls1))
           else
             (case createProject gw uid
                     [(''name'', JStr (name project)),
                      (''description'', string_json (description project)),
                      (''user_id'', JStr uid),
                      (''is_public'', JBool (is_public project)),
                      (''tags'', tags_json (tags project)),
                      (''metadata'', any_json (offline_project.metadata project))] calls of
                (newProject, calls1) \<Rightarrow>
                  (case update_row offline_base.id' (projects st) (offline_base.id' project)
                          (\<lambda>r. map_option
                                  (\<lambda>i. r\<lparr>offline_base.id' := i, sync_status := Synced\<rparr>)
                                  (any_id newProject)) of
                     Inl e \<Rightarrow> (Inl e, st, calls1)
                   | Inr t \<Rightarrow> (Inr (), st\<lparr>projects := t\<rparr>, calls1)))))"

definition pushDocument ::
  "gateway \<Rightarrow> string \<Rightarrow> timestamp \<Rightarrow> offline_document \<Rightarrow> world \<Rightarrow> (failure + unit) \<times> world" where
  "pushDocument gw uid now document w =
     (case w of (st, calls) \<Rightarrow>
        settle_push Documents (offline_base.id' document) now
          (if is_server_id (offline_base.id' document) then
             (case updateDocument gw (offline_base.id' document)
                     [(''title'', JStr (offline_document.title document)),
                      (''content'', JStr (offline_document.content document)),
                      (''is_public'', JBool (is_public document)),
                      (''tags'', tags_json (tags document)),
                      (''metadata'', any_json (offline_document.metadata document))] calls of
                (Inl e, calls1) \<Rightarrow> (Inl e, st, calls1)
              | (Inr row, calls1) \<Rightarrow> (Inr (), st, calls1))
           else
             (case createDocument gw
                     [(''title'', JStr (offline_document.title document)),
                      (''content'', JStr (offline_document.content document)),
                      (''project_id'', JStr (project_id document)),
                      (''user_id'', JStr uid),
                      (''is_public'', JBool (is_public document)),
                      (''tags'', tags_json (tags document)),
                      (''metadata'', any_json (offline_document.metadata document))] calls of
                (Inl e, calls1) \<Rightarrow> (Inl e, st, calls1)
              | (Inr newDocument, calls1) \<Rightarrow>
                  (case update_row offline_base.id' (documents st) (offline_base.id' document)
                          (\<lambda>r. Some (r\<lparr>offline_base.id' := newDocument,
                                        sync_status := Synced\<rparr>)) of
                     Inl e \<Rightarrow> (Inl e, st, calls1)
                   | Inr t \<Rightarrow> (Inr (), st\<lparr>documents := t\<rparr>, calls1)))))"

definition pushStandardInfo ::
  "gateway \<Rightarrow> string \<Rightarrow> timestamp \<Rightarrow> offline_standard_info \<Rightarrow> world
     \<Rightarrow> (failure + unit) \<times> world" where
  "pushStandardInfo gw uid now standard w =
     (case w of (st, calls) \<Rightarrow>
        settle_push Standard_info (offline_base.id' standard) now
          (if is_server_id (offline_base.id' standard) then
             (case updateStandardInfo gw (offline_base.id' standard)
                     [(''title'', JStr (offline_standard_info.title standard)),
                      (''content'', JStr (offline_standard_info.content standard)),
                      (''category'', JStr (category standard)),
                      (''tags'', tags_json (tags standard)),
                      (''embedding'', string_json (embedding standard))] calls of
                (Inl e, calls1) \<Rightarrow> (Inl e, st, calls1)
              | (Inr row, calls1) \<Rightarrow> (Inr (), st, calls1))
           else
             (case createStandardInfo gw
                     [(''title'', JStr (offline_standard_info.title standard)),
                      (''content'', JStr (offline_standard_info.content standard)),
                      (''category'', JStr (category standard)),
                      (''user_id'', JStr uid),
                      (''tags'', tags_json (tags standard)),
                      (''embedding'', string_json (embedding standard))] calls of
                (Inl e, calls1) \<Rightarrow> (Inl e, st, calls1)
              | (Inr row, calls1) \<Rightarrow> (Inr (), st, calls1))))"

text \<open>The records each loop runs over: the user's rows whose status is pending.\<close>

definition pendingProjects :: "string \<Rightarrow> store \<Rightarrow> failure + offline_project list" where
  "pendingProjects uid st =
     map_sum id (filter (\<lambda>p. sync_status p = Pending)) (getUserOfflineProjects uid st)"

definition pendingDocuments :: "string \<Rightarrow> store \<Rightarrow> failure + offline_document list" where
  "pendingDocuments uid st =
     map_sum id (filter (\<lambda>d. sync_status d = Pending)) (getUserOfflineDocuments uid st)"

definition pendingStandardInfo :: "string \<Rightarrow> store \<Rightarrow> failure + offline_standard_info list" where
  "pendingStandardInfo uid st =
     map_sum id (filter (\<lambda>s. sync_status s = Pending)) (getUserOfflineStandardInfo uid st)"

definition push_projects :: "gateway \<Rightarrow> string \<Rightarrow> timestamp \<Rightarrow> world \<Rightarrow> (failure + unit) \<times> world" where
  "push_projects gw uid now w =
     (case pendingProjects uid (fst w) of
        Inl e \<Rightarrow> (Inl e, w)
      | Inr ps \<Rightarrow> for_each (pushProject gw uid now) ps w)"

definition push_documents :: "gateway \<Rightarrow> string \<Rightarrow> timestamp \<Rightarrow> world \<Rightarrow> (failure + unit) \<times> world" where
  "push_documents gw uid now w =
     (case pendingDocuments uid (fst w) of
        Inl e \<Rightarrow> (Inl e, w)
      | Inr ds \<Rightarrow> for_each (pushDocument gw uid now) ds w)"

definition push_standard_info ::
  "gateway \<Rightarrow> string \<Rightarrow> timestamp \<Rightarrow> world \<Rightarrow> (failure + unit) \<times> world" where
  "push_standard_info gw uid now w =
     (case pendingStandardInfo uid (fst w) of
        Inl e \<Rightarrow> (Inl e, w)
      | Inr ss \<Rightarrow> for_each (pushStandardInfo gw uid now) ss w)"

definition push_phase :: "gateway \<Rightarrow> string \<Rightarrow> timestamp \<Rightarrow> world \<Rightarrow> (failure + unit) \<times> world" where
  "push_phase gw uid now =
     and_then (push_projects gw uid now)
       (and_then (push_documents gw uid now) (push_standard_info gw uid now))"

subsection \<open>The pull\<close>

text \<open>
  \<^verbatim>\<open>{ ...row, sync_status: 'synced', last_sync_at: now, local_updated_at: now }\<close>
\<close>

definition pulled :: "timestamp \<Rightarrow> 'a offline_base_scheme \<Rightarrow> 'a offline_base_scheme" where
  "pulled now r = r\<lparr>sync_status := Synced, last_sync_at := Some now, local_updated_at := now\<rparr>"

definition put_all ::
  "timestamp \<Rightarrow> 'a offline_base_scheme list \<Rightarrow> 'a offline_base_scheme list
     \<Rightarrow> 'a offline_base_scheme list" where
  "put_all now t rows = foldl (\<lambda>t' r. put_row offline_base.id' t' (pulled now r)) t rows"

definition syncFromServer ::
  "gateway \<Rightarrow> string option \<Rightarrow> timestamp \<Rightarrow> store \<Rightarrow> (failure + unit) \<times> store" where
  "syncFromServer gw user now st =
     (case user of
        None \<Rightarrow> (Inr (), st)
      | Some uid \<Rightarrow>
          (case getUserProjects gw uid of
             Inl m \<Rightarrow> (Inl (GatewayError m), st)
           | Inr serverProjects \<Rightarrow>
          (case getUserDocuments gw uid of
             Inl m \<Rightarrow> (Inl (GatewayError m), st)
           | Inr serverDocuments \<Rightarrow>
          (case getUserStandardInfo gw uid of
             Inl m \<Rightarrow> (Inl (GatewayError m), st)
           | Inr serverStandardInfo \<Rightarrow>
               (Inr (),
                st\<lparr>projects := put_all now (projects st) serverProjects,
                   documents := put_all now (documents st) serverDocuments,
                   standard_info := put_all now (standard_info st) serverStandardInfo\<rparr>)))))"

subsection \<open>The cycle\<close>

definition on_store ::
  "(store \<Rightarrow> (failure + unit) \<times> store) \<Rightarrow> world \<Rightarrow> (failure + unit) \<times> world" where
  "on_store f w = (case w of (st, calls) \<Rightarrow> (case f st of (r, st') \<Rightarrow> (r, st', calls)))"

definition loadSyncStats :: "string option \<Rightarrow> store \<Rightarrow> SyncState \<Rightarrow> SyncState" where
  "loadSyncStats user st syncState =
     (case user of
        None \<Rightarrow> syncState
      | Some uid \<Rightarrow>
          (case getSyncStats uid st of
             Inl e \<Rightarrow> syncState
           | Inr stats \<Rightarrow>
               syncState\<lparr>syncStats := Some stats,
                         SyncState.lastSyncAt :=
                           (case sync_stats.lastSyncAt stats of
                              None \<Rightarrow> None
                            | Some t \<Rightarrow> if t \<noteq> 0 then Some t else None)\<rparr>))"

definition syncData ::
  "gateway \<Rightarrow> string option \<Rightarrow> timestamp \<Rightarrow> SyncState \<times> world \<Rightarrow> SyncState \<times> world" where
  "syncData gw user now sw =
     (case sw of (syncState, w) \<Rightarrow>
        (case user of
           None \<Rightarrow> sw
         | Some uid \<Rightarrow>
             if \<not> isOnline syncState then sw
             else if isSyncing syncState then sw
             else
               (case and_then (push_phase gw uid now)
                       (and_then (on_store (syncFromServer gw user now))
                          (on_store (clearExpiredCache now))) w of
                  (Inr u, st', calls') \<Rightarrow>
                    (loadSyncStats user st'
                       (syncState\<lparr>isSyncing := False, syncError := None,
                                   SyncState.lastSyncAt := Some now\<rparr>),
                     st', calls')
                | (Inl e, st', calls') \<Rightarrow>
                    (loadSyncStats user st'
                       (syncState\<lparr>isSyncing := False, syncError := Some (message e)\<rparr>),
                     st', calls'))))"

section \<open>The completion service (services/completionService)\<close>

subsection \<open>JavaScript strings\<close>

text \<open>
  A JavaScript string is a sequence of UTF-16 code units; \<^verbatim>\<open>btoa\<close> fails on a code unit
  above 255, so the code units are kept as numbers.
\<close>

type_synonym jsstring = "nat list"

definition ascii :: "string \<Rightarrow> jsstring" where
  "ascii s = map of_char s"

text \<open>\<^verbatim>\<open>String.prototype.trim\<close>: white space and line terminators of ECMAScript.\<close>

definition is_space :: "nat \<Rightarrow> bool" where
  "is_space c =
     (c \<in> set [9, 10, 11, 12, 13, 32, 160, 5760, 8232, 8233, 8239, 8287, 12288, 65279]
      \<or> (8192 \<le> c \<and> c \<le> 8202))"

definition trim :: "jsstring \<Rightarrow> jsstring" where
  "trim s = rev (dropWhile is_space (rev (dropWhile is_space s)))"

text \<open>
  \<^verbatim>\<open>JSON.stringify\<close> of a string: quotes, backslashes and control characters are
  escaped, a surrogate without its partner is written as \<^verbatim>\<open>\uXXXX\<close>.
\<close>

definition hex4 :: "nat \<Rightarrow> jsstring" where
  "hex4 c =
     ascii [digit_char (c div 4096 mod 16), digit_char (c div 256 mod 16),
            digit_char (c div 16 mod 16), digit_char (c mod 16)]"

definition escape_unit :: "nat \<Rightarrow> jsstring" where
  "escape_unit c =
     (if c = 8 then ascii [CHR 0x5C, CHR ''b'']
      else if c = 9 then ascii [CHR 0x5C, CHR ''t'']
      else if c = 10 then ascii [CHR 0x5C, CHR ''n'']
      else if c = 12 then ascii [CHR 0x5C, CHR ''f'']
      else if c = 13 then ascii [CHR 0x5C, CHR ''r'']
      else if c = 34 then ascii [CHR 0x5C, CHR 0x22]
      else if c = 92 then ascii [CHR 0x5C, CHR 0x5C]
      else if c < 32 \<or> (55296 \<le> c \<and> c \<le> 57343) then ascii [CHR 0x5C, CHR ''u''] @ hex4 c
      else [c])"

fun escape_units :: "jsstring \<Rightarrow> jsstring" where
  "escape_units [] = []"
| "escape_units [c] = escape_unit c"
| "escape_units (c # d # cs) =
     (if 55296 \<le> c \<and> c \<le> 56319 \<and> 56320 \<le> d \<and> d \<le> 57343
      then c # d # escape_units cs
      else escape_unit c @ escape_units (d # cs))"

definition quote :: "jsstring \<Rightarrow> jsstring" where
  "quote s = [34] @ escape_units s @ [34]"

definition number_string :: "int \<Rightarrow> jsstring" where
  "number_string n = (if n < 0 then ascii ''-'' @ ascii (dec (nat (- n))) else ascii (dec (nat n)))"

text \<open>\<^verbatim>\<open>btoa\<close>: base64 of the bytes, or an exception on a code unit above 255.\<close>

definition b64 :: "nat \<Rightarrow> nat" where
  "b64 n = of_char (''ABCDEFGHIJKLMNOPQRSTUVWXYZabcdefghijklmnopqrstuvwxyz0123456789+/'' ! n)"

fun base64 :: "nat list \<Rightarrow> nat list" where
  "base64 [] = []"
| "base64 [a] = [b64 (a div 4), b64 (a mod 4 * 16), 61, 61]"
| "base64 [a, b] = [b64 (a div 4), b64 (a mod 4 * 16 + b div 16), b64 (b mod 16 * 4), 61]"
| "base64 (a # b # c # bytes) =
     [b64 (a div 4), b64 (a mod 4 * 16 + b div 16), b64 (b mod 16 * 4 + c div 64), b64 (c mod 64)]
     @ base64 bytes"

definition btoa :: "jsstring \<Rightarrow> jsstring option" where
  "btoa s = (if \<forall>c \<in> set s. c \<le> 255 then Some (base64 s) else None)"

subsection \<open>Requests, responses and the cache\<close>

record CompletionRequest =
  prompt :: jsstring
  context' :: "jsstring option"
  language :: "jsstring option"
  maxTokens :: "int option"
  temperature :: "real option"
  stream :: "bool option"

record CompletionResponse =
  text' :: jsstring
  usage :: "(nat \<times> nat \<times> nat) option"

record CompletionCache =
  id' :: jsstring
  prompt :: jsstring
  context' :: "jsstring option"
  response :: jsstring
  language :: "jsstring option"
  createdAt :: timestamp
  expiresAt :: timestamp

text \<open>
  The three maps of the service. \<open>apiRequests\<close> is not a field of the class: it lists the
  requests handed to \<^verbatim>\<open>makeAPIRequest\<close>, each of them one remote call, and a request
  promise is known by the position of its request in that list.
\<close>

record CompletionService =
  cache :: "jsstring \<Rightarrow> CompletionCache option"
  pendingRequests :: "jsstring \<Rightarrow> nat option"
  abortControllers :: "jsstring \<Rightarrow> nat option"
  apiRequests :: "CompletionRequest list"

subsection \<open>The cache key\<close>

definition member :: "string \<Rightarrow> jsstring \<Rightarrow> jsstring" where
  "member k v = quote (ascii k) @ ascii '':'' @ v"

fun join :: "jsstring list \<Rightarrow> jsstring" where
  "join [] = []"
| "join [m] = m"
| "join (m # ms) = m @ ascii '','' @ join ms"

text \<open>
  \<^verbatim>\<open>JSON.stringify(keyData)\<close>: the properties in the order of the object literal, a
  property whose value is \<^verbatim>\<open>undefined\<close> left out.
\<close>

definition stringify_keyData ::
  "jsstring \<Rightarrow> jsstring option \<Rightarrow> jsstring option \<Rightarrow> int option \<Rightarrow> jsstring" where
  "stringify_keyData p c l m =
     ascii ''{'' @
     join ([member ''prompt'' (quote p)]
           @ (case c of None \<Rightarrow> [] | Some v \<Rightarrow> [member ''context'' (quote v)])
           @ (case l of None \<Rightarrow> [] | Some v \<Rightarrow> [member ''language'' (quote v)])
           @ (case m of None \<Rightarrow> [] | Some n \<Rightarrow> [member ''maxTokens'' (number_string n)]))
     @ ascii ''}''"

text \<open>
  The fallback hash: \<^verbatim>\<open>hash = ((hash << 5) - hash) + char; hash = hash & hash\<close> on 32-bit
  integers, then \<^verbatim>\<open>Math.abs(hash).toString(36)\<close>.
\<close>

definition hash_step :: "32 word \<Rightarrow> nat \<Rightarrow> 32 word" where
  "hash_step hash char = (let h = (push_bit 5 hash - hash) + of_nat char in h AND h)"

definition simple_hash :: "jsstring \<Rightarrow> jsstring" where
  "simple_hash str = ascii (to_base 36 (nat \<bar>sint (foldl hash_step 0 str)\<bar>))"

definition generateCacheKey :: "CompletionRequest \<Rightarrow> jsstring" where
  "generateCacheKey request =
     (let str = stringify_keyData (trim (CompletionRequest.prompt request))
                  (map_option trim (CompletionRequest.context' request))
                  (CompletionRequest.language request)
                  (maxTokens request)
      in case btoa str of
           Some k \<Rightarrow> k
         | None \<Rightarrow> simple_hash str)"

subsection \<open>Lookups and requests\<close>

definition getCachedCompletion ::
  "jsstring \<Rightarrow> timestamp \<Rightarrow> CompletionService \<Rightarrow> CompletionResponse option" where
  "getCachedCompletion k now svc =
     (case cache svc k of
        None \<Rightarrow> None
      | Some c \<Rightarrow>
          if expiresAt c > now then Some \<lparr> text' = response c, usage = None \<rparr> else None)"

text \<open>
  \<^verbatim>\<open>saveCompletionCache\<close> also hands the entry to the offline database; what is stored
  there is read when the service is constructed, never by a lookup.
\<close>

definition saveCompletionCache ::
  "jsstring \<Rightarrow> CompletionRequest \<Rightarrow> CompletionResponse \<Rightarrow> timestamp \<Rightarrow> CompletionService
     \<Rightarrow> CompletionService" where
  "saveCompletionCache k request resp now svc =
     svc\<lparr>cache := (cache svc)(k \<mapsto>
            \<lparr> CompletionCache.id' = k,
              CompletionCache.prompt = CompletionRequest.prompt request,
              CompletionCache.context' = CompletionRequest.context' request,
              response = text' resp,
              CompletionCache.language = CompletionRequest.language request,
              createdAt = now,
              expiresAt = now + 24 * 60 * 60 * 1000 \<rparr>)\<rparr>"

text \<open>
  \<^verbatim>\<open>generateCompletion\<close> is an \<^verbatim>\<open>async\<close> function with one \<^verbatim>\<open>await\<close>. It runs without
  interruption up to the \<^verbatim>\<open>await\<close>, having looked at the pending requests and at the
  cache; there it is suspended, and other code runs before its continuation does. The
  result of a call is a response or the request promise the caller is handed.
\<close>

datatype completion_result = Settled CompletionResponse | Awaits nat

definition generateCompletion_start ::
  "CompletionRequest \<Rightarrow> timestamp \<Rightarrow> CompletionService
     \<Rightarrow> completion_result + jsstring \<times> CompletionResponse option" where
  "generateCompletion_start request now svc =
     (let cacheKey = generateCacheKey request
      in case pendingRequests svc cacheKey of
           Some pendingRequest \<Rightarrow> Inl (Awaits pendingRequest)
         | None \<Rightarrow> Inr (cacheKey, getCachedCompletion cacheKey now svc))"

definition generateCompletion_resume ::
  "CompletionRequest \<Rightarrow> jsstring \<times> CompletionResponse option \<Rightarrow> CompletionService
     \<Rightarrow> completion_result \<times> CompletionService" where
  "generateCompletion_resume request suspended svc =
     (case suspended of
        (cacheKey, Some cachedResponse) \<Rightarrow> (Settled cachedResponse, svc)
      | (cacheKey, None) \<Rightarrow>
          (let requestPromise = length (apiRequests svc)
           in (Awaits requestPromise,
               svc\<lparr>abortControllers := (abortControllers svc)(cacheKey \<mapsto> requestPromise),
                   apiRequests := apiRequests svc @ [request],
                   pendingRequests := (pendingRequests svc)(cacheKey \<mapsto> requestPromise)\<rparr>)))"

text \<open>A call whose continuation runs before any other code of the service.\<close>

definition generateCompletion ::
  "CompletionRequest \<Rightarrow> timestamp \<Rightarrow> CompletionService
     \<Rightarrow> completion_result \<times> CompletionService" where
  "generateCompletion request now svc =
     (case generateCompletion_start request now svc of
        Inl r \<Rightarrow> (r, svc)
      | Inr suspended \<Rightarrow> generateCompletion_resume request suspended svc)"

text \<open>
  Two calls made one after the other by the same piece of code, as in
  \<^verbatim>\<open>Promise.all([generateCompletion(a), generateCompletion(b)])\<close>: both run up to
  their \<^verbatim>\<open>await\<close> before either continuation runs, then the continuations run in the
  order of the calls.
\<close>

definition two_calls_at_once ::
  "CompletionRequest \<Rightarrow> CompletionRequest \<Rightarrow> timestamp \<Rightarrow> CompletionService
     \<Rightarrow> completion_result \<times> completion_result \<times> CompletionService" where
  "two_calls_at_once a b now svc =
     (let first_call = generateCompletion_start a now svc;
          second_call = generateCompletion_start b now svc;
          (r1, svc1) = (case first_call of
                          Inl r \<Rightarrow> (r, svc)
                        | Inr suspended \<Rightarrow> generateCompletion_resume a suspended svc);
          (r2, svc2) = (case second_call of
                          Inl r \<Rightarrow> (r, svc1)
                        | Inr suspended \<Rightarrow> generateCompletion_resume b suspended svc1)
      in (r1, r2, svc2))"

text \<open>
  The request promise settles: on a response the entry is cached (\<^verbatim>\<open>then\<close>), and in
  either case the request is taken out of the two maps (\<^verbatim>\<open>finally\<close>).
\<close>

definition request_settled ::
  "jsstring \<Rightarrow> CompletionRequest \<Rightarrow> failure + CompletionResponse \<Rightarrow> timestamp
     \<Rightarrow> CompletionService \<Rightarrow> CompletionService" where
  "request_settled cacheKey request outcome now svc =
     (let svc1 = (case outcome of
                    Inl e \<Rightarrow> svc
                  | Inr resp \<Rightarrow> saveCompletionCache cacheKey request resp now svc)
      in svc1\<lparr>pendingRequests := (pendingRequests svc1)(cacheKey := None),
              abortControllers := (abortControllers svc1)(cacheKey := None)\<rparr>)"

section \<open>Example states\<close>

definition cache_entry :: "string \<Rightarrow> string \<Rightarrow> json \<Rightarrow> timestamp \<Rightarrow> offline_cache" where
  "cache_entry i k d e = \<lparr> offline_cache.id' = i, key = k, offline_cache.data = d, expires_at = e, offline_cache.created_at = 0 \<rparr>"

definition empty_store :: store where
  "empty_store = \<lparr> documents = [], projects = [], standard_info = [], sync_queue = [], store.cache = [] \<rparr>"

definition stale_store :: store where
  "stale_store = empty_store\<lparr>store.cache := [cache_entry ''k1_1'' ''k1'' (JStr ''v'') 999]\<rparr>"

definition plain_request :: "jsstring \<Rightarrow> CompletionRequest" where
  "plain_request p = \<lparr> CompletionRequest.prompt = p, CompletionRequest.context' = None, CompletionRequest.language = None, maxTokens = None, temperature = None, stream = None \<rparr>"

definition empty_service :: CompletionService where
  "empty_service = \<lparr> cache = Map.empty, pendingRequests = Map.empty, abortControllers = Map.empty, apiRequests = [] \<rparr>"

definition stale_service :: CompletionService where
  "stale_service = saveCompletionCache (ascii ''k'') (plain_request (ascii ''hi'')) \<lparr> text' = ascii ''there'', usage = None \<rparr> 1000 empty_service"

definition document_row ::
  "string \<Rightarrow> string \<Rightarrow> sync_status \<Rightarrow> timestamp option \<Rightarrow> offline_document" where
  "document_row i u s l =
     \<lparr> offline_base.id' = i, offline_base.user_id = u, is_public = False, tags = None,
       offline_base.created_at = ''2024-01-01T00:00:00.000Z'',
       updated_at = ''2024-01-01T00:00:00.000Z'',
       sync_status = s, last_sync_at = l, local_updated_at = 0,
       offline_document.title = ''Notes'', offline_document.content = ''First draft'',
       project_id = ''p1'', version = 1, offline_document.metadata = None,
       offline_document.deleted_at = None \<rparr>"

definition one_document_store :: store where
  "one_document_store = empty_store\<lparr>documents := [document_row ''d1'' ''u1'' Synced (Some 100)]\<rparr>"

definition cool_request :: CompletionRequest where
  "cool_request =
     \<lparr> CompletionRequest.prompt = ascii ''Summarise the plan '',
       CompletionRequest.context' = Some (ascii '' Q1 roadmap''),
       CompletionRequest.language = Some (ascii ''en''),
       maxTokens = Some 64, temperature = Some 0, stream = Some False \<rparr>"

definition hot_request :: CompletionRequest where
  "hot_request =
     \<lparr> CompletionRequest.prompt = ascii ''Summarise the plan'',
       CompletionRequest.context' = Some (ascii ''Q1 roadmap  ''),
       CompletionRequest.language = Some (ascii ''en''),
       maxTokens = Some 64, temperature = Some 1, stream = Some True \<rparr>"

definition joining_service :: CompletionService where
  "joining_service = empty_service\<lparr>pendingRequests := [generateCacheKey cool_request \<mapsto> 7]\<rparr>"

definition warm_service :: CompletionService where
  "warm_service =
     saveCompletionCache (generateCacheKey cool_request) cool_request
       \<lparr> text' = ascii ''Ship in March'', usage = None \<rparr> 1000 empty_service"

text \<open>What a table holds about the sync state of the record with a given identifier.\<close>

definition envelope_of ::
  "'a offline_base_scheme list \<Rightarrow> string \<Rightarrow> (sync_status \<times> timestamp option) option" where
  "envelope_of t i = map_option (\<lambda>r. (sync_status r, last_sync_at r)) (get_row offline_base.id' t i)"

definition envelope ::
  "table_name \<Rightarrow> string \<Rightarrow> store \<Rightarrow> (sync_status \<times> timestamp option) option" where
  "envelope tbl i st =
     (case tbl of
        Documents \<Rightarrow> envelope_of (documents st) i
      | Projects \<Rightarrow> envelope_of (projects st) i
      | Standard_info \<Rightarrow> envelope_of (standard_info st) i)"

definition project_row ::
  "string \<Rightarrow> string \<Rightarrow> sync_status \<Rightarrow> timestamp option \<Rightarrow> offline_project" where
  "project_row i u s l =
     \<lparr> offline_base.id' = i, offline_base.user_id = u, is_public = False, tags = None,
       offline_base.created_at = ''2024-01-01T00:00:00.000Z'',
       updated_at = ''2024-01-01T00:00:00.000Z'',
       sync_status = s, last_sync_at = l, local_updated_at = 0,
       name = ''Q1'', description = None, offline_project.metadata = None,
       offline_project.deleted_at = None \<rparr>"

definition standard_row ::
  "string \<Rightarrow> string \<Rightarrow> sync_status \<Rightarrow> timestamp option \<Rightarrow> offline_standard_info" where
  "standard_row i u s l =
     \<lparr> offline_base.id' = i, offline_base.user_id = u, is_public = False, tags = None,
       offline_base.created_at = ''2024-01-01T00:00:00.000Z'',
       updated_at = ''2024-01-01T00:00:00.000Z'',
       sync_status = s, last_sync_at = l, local_updated_at = 0,
       offline_standard_info.title = ''Tone'', offline_standard_info.content = ''Plain words'',
       category = ''style'', embedding = None \<rparr>"

text \<open>
  The spec's words for the last statistic: the most recent \<^verbatim>\<open>last_sync_at\<close> across the
  user's projects, documents and standard-info records, and "no prior sync" when no
  record of these tables has one.
\<close>

definition sync_times :: "string \<Rightarrow> 'a offline_base_scheme list \<Rightarrow> nat list" where
  "sync_times userId rows =
     concat (map (\<lambda>r. case last_sync_at r of None \<Rightarrow> [] | Some t \<Rightarrow> [t])
               (filter (\<lambda>r. offline_base.user_id r = userId) rows))"

definition spec_lastSyncAt :: "string \<Rightarrow> store \<Rightarrow> nat option" where
  "spec_lastSyncAt userId st =
     (let times = sync_times userId (projects st) @ sync_times userId (documents st)
                  @ sync_times userId (standard_info st)
      in if times = [] then None else Some (math_max times))"

definition project_synced_store :: store where
  "project_synced_store =
     empty_store\<lparr>projects := [project_row ''p1'' ''u1'' Synced (Some 100)],
                 documents := [document_row ''d1'' ''u1'' Pending None]\<rparr>"

definition snapshot_gateway :: gateway where
  "snapshot_gateway =
     \<lparr> respond = (\<lambda>n c. Inr ''srv_1''),
       getUserProjects = (\<lambda>u. Inr [project_row ''p1'' ''u1'' Pending None]),
       getUserDocuments = (\<lambda>u. Inr [document_row ''d1'' ''u1'' Pending None]),
       getUserStandardInfo = (\<lambda>u. Inr []) \<rparr>"

definition local_store :: store where
  "local_store =
     empty_store\<lparr>projects := [project_row ''p1'' ''u1'' Error None,
                              project_row ''temp_9'' ''u1'' Pending None],
                 documents := [document_row ''d7'' ''u1'' Pending None],
                 standard_info := [standard_row ''s1'' ''u1'' Error None]\<rparr>"

definition online :: SyncState where
  "online = \<lparr> isOnline = True, isSyncing = False, SyncState.lastSyncAt = None,
               syncError = None, syncStats = None \<rparr>"

text \<open>
  The spec's scenario: the project \<open>temp_abc\<close>, named Q1, was saved locally and is pending;
  the gateway creates the row \<open>srv_1\<close> and lists it afterwards.
\<close>

definition placeholder_project_store :: store where
  "placeholder_project_store =
     snd (saveProjectOffline (project_row ''temp_abc'' ''u1'' Pending None) 100 empty_store)"

definition placeholder_standard_store :: store where
  "placeholder_standard_store =
     snd (saveStandardInfoOffline (standard_row ''temp_s1'' ''u1'' Pending None) 100 empty_store)"

definition placeholder_document_store :: store where
  "placeholder_document_store =
     snd (saveDocumentOffline (document_row ''temp_d1'' ''u1'' Pending None) 100 empty_store)"

definition creating_gateway :: gateway where
  "creating_gateway =
     \<lparr> respond = (\<lambda>n c. Inr ''srv_1''),
       getUserProjects = (\<lambda>u. Inr [project_row ''srv_1'' ''u1'' Synced None]),
       getUserDocuments = (\<lambda>u. Inr []),
       getUserStandardInfo = (\<lambda>u. Inr [standard_row ''srv_1'' ''u1'' Synced None]) \<rparr>"

text \<open>
  Two pending documents with server identifiers, saved locally one after the other; the
  gateway is unreachable for the first remote call of the cycle and answers every other.
\<close>

definition two_documents_store :: store where
  "two_documents_store =
     snd (saveDocumentOffline (document_row ''doc_2'' ''u1'' Synced (Some 50)) 101
       (snd (saveDocumentOffline (document_row ''doc_1'' ''u1'' Synced (Some 50)) 100
          empty_store)))"

definition failing_first_gateway :: gateway where
  "failing_first_gateway =
     \<lparr> respond = (\<lambda>n c. if n = 0 then Inl ''Failed to fetch''
                          else Inr (case c of UpdateRow t i f \<Rightarrow> i | InsertRow t f \<Rightarrow> ''srv_1'')),
       getUserProjects = (\<lambda>u. Inr []),
       getUserDocuments = (\<lambda>u. Inr []),
       getUserStandardInfo = (\<lambda>u. Inr []) \<rparr>"

definition summary :: "'a offline_base_scheme list \<Rightarrow> (string \<times> sync_status \<times> timestamp option) list" where
  "summary rows = map (\<lambda>r. (offline_base.id' r, sync_status r, last_sync_at r)) rows"

definition queue_summary :: "sync_queue_item list \<Rightarrow> (string \<times> operation \<times> nat \<times> string option) list" where
  "queue_summary q = map (\<lambda>i. (original_id i, operation i, retry_count i, last_error i)) q"



text \<open>A project with a server identifier, edited locally.\<close>

definition one_project_store :: store where
  "one_project_store =
     snd (saveProjectOffline (project_row ''proj_1'' ''u1'' Synced (Some 50)) 100 empty_store)"

text \<open>
  A value cached for one minute at time 0 and cached again, for an hour, at time 100000:
  \<^verbatim>\<open>setCache\<close> writes a row of its own at each call.
\<close>

definition recached_store :: store where
  "recached_store =
     setCache ''k1'' (JStr ''new'') 60 100000 (setCache ''k1'' (JStr ''old'') 1 0 empty_store)"





text \<open>
  A table after the status and the sync timestamp have been written to the record stored
  under an identifier: every other row is the row it was.
\<close>

definition marked ::
  "sync_status \<Rightarrow> timestamp \<Rightarrow> string \<Rightarrow> 'a offline_base_scheme list
     \<Rightarrow> 'a offline_base_scheme list" where
  "marked status now i t =
     (case get_row offline_base.id' t i of
        None \<Rightarrow> t
      | Some r \<Rightarrow>
          map (\<lambda>x. if offline_base.id' x = i
                    then r\<lparr>sync_status := status,
                           last_sync_at := (if status = Synced then Some now else None)\<rparr>
                    else x) t)"


section \<open>The cache\<close>

lemma getCache_miss:
  "(\<forall>item \<in> set (store.cache st). key item = k \<longrightarrow> expires_at item \<le> now) \<Longrightarrow> getCache k now st = Inr None"
proof -
  assume h: "\<forall>item \<in> set (store.cache st). key item = k \<longrightarrow> expires_at item \<le> now"
  have "filter (\<lambda>item. expires_at item > now) (filter (\<lambda>r. key r = k) (store.cache st)) = []"
    using h by (auto simp: filter_empty_conv)
  then show ?thesis
    by (simp add: getCache_def where_equals_def cache_schema_def first_def)
qed

lemma recached_rows:
  "store.cache recached_store
     = [\<lparr> offline_cache.id' = ''k1_0'', key = ''k1'', offline_cache.data = JStr ''old'',
           expires_at = 60000, offline_cache.created_at = 0 \<rparr>,
        \<lparr> offline_cache.id' = ''k1_100000'', key = ''k1'', offline_cache.data = JStr ''new'',
           expires_at = 3700000, offline_cache.created_at = 100000 \<rparr>]"
  by (simp add: recached_store_def setCache_def put_row_def empty_store_def dec_def
      to_base.simps digit_char_def)

lemma recached_hit: "getCache ''k1'' 200000 recached_store = Inr (Some (JStr ''new''))"
  by (simp add: getCache_def where_equals_def cache_schema_def first_def recached_rows)

text \<open>
  C7, as stated, fails for the offline cache: at time 200000 the row written first under
  \<open>k1\<close> has expired and is still stored, and the lookup of \<open>k1\<close> is a hit, on the row
  written second.
\<close>

theorem expired_entry_miss_counterexample:
  "map (\<lambda>item. (key item, offline_cache.data item, expires_at item)) (store.cache recached_store)
     = [(''k1'', JStr ''old'', 60000), (''k1'', JStr ''new'', 3700000)]
   \<and> getCache ''k1'' 200000 recached_store = Inr (Some (JStr ''new''))"
  by (simp add: recached_rows recached_hit)

lemma getCache_result:
  "getCache k now st =
     Inr (case filter (\<lambda>item. key item = k \<and> expires_at item > now) (store.cache st) of
            [] \<Rightarrow> None
          | item # rest \<Rightarrow>
              if truthy (offline_cache.data item) then Some (offline_cache.data item) else None)"
proof -
  have f: "filter (\<lambda>item. expires_at item > now) (filter (\<lambda>r. key r = k) (store.cache st))
             = filter (\<lambda>item. key item = k \<and> expires_at item > now) (store.cache st)"
    by (simp add: conj_commute)
  show ?thesis
    by (simp add: getCache_def where_equals_def cache_schema_def first_def f
        split: list.splits)
qed

lemma getCache_hit:
  assumes "getCache k now st = Inr (Some v)"
  shows "\<exists>item \<in> set (store.cache st).
           key item = k \<and> expires_at item > now \<and> offline_cache.data item = v"
proof -
  let ?live = "filter (\<lambda>item. key item = k \<and> expires_at item > now) (store.cache st)"
  from assms obtain item rest where l: "?live = item # rest" and v: "offline_cache.data item = v"
    unfolding getCache_result by (auto split: list.splits if_splits)
  from l have "item \<in> set ?live" by simp
  then have "item \<in> set (store.cache st) \<and> key item = k \<and> expires_at item > now" by simp
  with v show ?thesis by blast
qed

text \<open>
  C7, amended. An expired entry is never what a lookup returns. \<^verbatim>\<open>getCache\<close> answers
  from the first row stored under the key whose expiry is still in the future: a hit is
  the data of such a row, and when every row under the key has expired, the lookup is a
  miss (\<^verbatim>\<open>null\<close>). The completion cache holds one entry for a key, and
  \<^verbatim>\<open>getCachedCompletion\<close> answers \<^verbatim>\<open>null\<close> when that entry has expired.
\<close>

theorem lookup_returns_live_entries_only:
  "getCache k now st =
     Inr (case filter (\<lambda>item. key item = k \<and> expires_at item > now) (store.cache st) of
            [] \<Rightarrow> None
          | item # rest \<Rightarrow>
              if truthy (offline_cache.data item) then Some (offline_cache.data item) else None)
   \<and> (\<forall>v. getCache k now st = Inr (Some v) \<longrightarrow>
          (\<exists>item \<in> set (store.cache st).
             key item = k \<and> expires_at item > now \<and> offline_cache.data item = v))
   \<and> ((\<forall>item \<in> set (store.cache st). key item = k \<longrightarrow> expires_at item \<le> now)
        \<longrightarrow> getCache k now st = Inr None)
   \<and> getCachedCompletion k' now' svc =
       (case cache svc k' of
          None \<Rightarrow> None
        | Some c \<Rightarrow> if expiresAt c > now' then Some \<lparr> text' = response c, usage = None \<rparr>
                    else None)
   \<and> ((\<forall>c. cache svc k' = Some c \<longrightarrow> expiresAt c \<le> now')
        \<longrightarrow> getCachedCompletion k' now' svc = None)"
proof -
  have "getCachedCompletion k' now' svc = None"
    if "\<forall>c. cache svc k' = Some c \<longrightarrow> expiresAt c \<le> now'"
    using that by (auto simp: getCachedCompletion_def split: option.splits)
  then show ?thesis
    using getCache_result [of k now st] getCache_hit [of k now st] getCache_miss [of st k now]
    by (simp add: getCachedCompletion_def)
qed

theorem lookup_returns_live_entries_only_witness:
  "getCache ''k1'' 1000 stale_store = Inr None
   \<and> get_row offline_cache.id' (store.cache stale_store) ''k1_1'' \<noteq> None
   \<and> (\<exists>item \<in> set (store.cache recached_store).
         key item = ''k1'' \<and> expires_at item > 200000 \<and> offline_cache.data item = JStr ''new'')
   \<and> getCachedCompletion (ascii ''k'') 86401000 stale_service = None
   \<and> cache stale_service (ascii ''k'') \<noteq> None"
proof -
  have hit: "getCache ''k1'' 200000 recached_store = Inr (Some (JStr ''new''))"
    by (rule recached_hit)
  have stale: "\<forall>item \<in> set (store.cache stale_store). key item = ''k1'' \<longrightarrow> expires_at item \<le> 1000"
    by (simp add: stale_store_def empty_store_def cache_entry_def)
  have kept: "get_row offline_cache.id' (store.cache stale_store) ''k1_1'' \<noteq> None"
    by (simp add: stale_store_def empty_store_def cache_entry_def get_row_def)
  have old: "\<forall>c. cache stale_service (ascii ''k'') = Some c \<longrightarrow> expiresAt c \<le> 86401000"
    and held: "cache stale_service (ascii ''k'') \<noteq> None"
    by (simp_all add: stale_service_def saveCompletionCache_def empty_service_def)
  show ?thesis
    using lookup_returns_live_entries_only
        [where st = stale_store and k = "''k1''" and now = 1000
           and svc = stale_service and k' = "ascii ''k''" and now' = 86401000]
      lookup_returns_live_entries_only
        [where st = recached_store and k = "''k1''" and now = 200000]
      hit stale kept old held
    by blast
qed

section \<open>Deleting a document\<close>

text \<open>
  C9, as stated, fails: after \<^verbatim>\<open>deleteDocument\<close> succeeded on a store that holds the
  document \<open>d1\<close>, no row of the local table carries that identifier, with or without
  a soft-delete timestamp.
\<close>

theorem deleteDocument_soft_delete_counterexample:
  "fst (deleteDocument ''u1'' ''d1'' 200 one_document_store) = Inr ()
   \<and> \<not> (\<exists>r \<in> set (documents (snd (deleteDocument ''u1'' ''d1'' 200 one_document_store))).
           offline_base.id' r = ''d1'')"
  by (simp add: deleteDocument_def one_document_store_def empty_store_def document_row_def
      delete_row_def addToSyncQueue_def add_row_def Let_def)

text \<open>
  C9, amended. Deleting a document locally removes its row from the local table at once
  and leaves every other row as it was; then a delete operation for the identifier is
  appended to the sync queue, with no retry and no error so far, unless the queue refuses
  the entry. Nothing waits for the remote store.
\<close>

theorem deleteDocument_removes_at_once:
  "documents (snd (deleteDocument userId documentId now st))
     = filter (\<lambda>r. offline_base.id' r \<noteq> documentId) (documents st)
   \<and> get_row offline_base.id' (documents (snd (deleteDocument userId documentId now st)))
         documentId = None
   \<and> (fst (deleteDocument userId documentId now st) = Inr () \<longrightarrow>
        sync_queue (snd (deleteDocument userId documentId now st))
          = sync_queue st
            @ [\<lparr> sync_queue_item.id' = ''documents_'' @ documentId @ ''_'' @ dec now,
                 table = Documents, operation = Delete,
                 sync_queue_item.data = KeyData documentId userId,
                 original_id = documentId, sync_queue_item.user_id = userId,
                 sync_queue_item.created_at = now, retry_count = 0, last_error = None \<rparr>])"
  by (auto simp: deleteDocument_def delete_row_def addToSyncQueue_def add_row_def get_row_def
      find_None_iff Let_def split: sum.splits prod.splits if_splits)

theorem deleteDocument_removes_at_once_witness:
  "documents (snd (deleteDocument ''u1'' ''d1'' 200 one_document_store)) = []
   \<and> map original_id (sync_queue (snd (deleteDocument ''u1'' ''d1'' 200 one_document_store)))
       = [''d1'']
   \<and> map operation (sync_queue (snd (deleteDocument ''u1'' ''d1'' 200 one_document_store)))
       = [Delete]"
proof -
  have ok: "fst (deleteDocument ''u1'' ''d1'' 200 one_document_store) = Inr ()"
    by (simp add: deleteDocument_def one_document_store_def empty_store_def
        addToSyncQueue_def add_row_def Let_def)
  have empty: "sync_queue one_document_store = []"
    by (simp add: one_document_store_def empty_store_def)
  have docs: "documents one_document_store = [document_row ''d1'' ''u1'' Synced (Some 100)]"
    by (simp add: one_document_store_def empty_store_def)
  show ?thesis
    using deleteDocument_removes_at_once
      [where userId = "''u1''" and documentId = "''d1''" and now = 200
         and st = one_document_store] ok
    by (simp add: empty docs document_row_def)
qed

section \<open>The completion cache key and the requests in flight\<close>

lemma registered_request_is_joined:
  "pendingRequests svc (generateCacheKey request) = Some p
     \<Longrightarrow> generateCompletion request now svc = (Awaits p, svc)"
  by (simp add: generateCompletion_def generateCompletion_start_def)

lemma cached_response_is_served:
  "pendingRequests svc (generateCacheKey request) = None
     \<Longrightarrow> getCachedCompletion (generateCacheKey request) now svc = Some resp
     \<Longrightarrow> generateCompletion request now svc = (Settled resp, svc)"
  by (simp add: generateCompletion_def generateCompletion_start_def generateCompletion_resume_def)

lemma same_fields_same_key:
  assumes "trim (CompletionRequest.prompt a) = trim (CompletionRequest.prompt b)"
    and "map_option trim (CompletionRequest.context' a)
           = map_option trim (CompletionRequest.context' b)"
    and "CompletionRequest.language a = CompletionRequest.language b"
    and "maxTokens a = maxTokens b"
  shows "generateCacheKey a = generateCacheKey b"
  using assms by (simp add: generateCacheKey_def)

lemma first_request_is_registered:
  assumes "pendingRequests svc (generateCacheKey a) = None"
    and "getCachedCompletion (generateCacheKey a) now svc = None"
  shows "generateCompletion a now svc
           = (Awaits (length (apiRequests svc)),
              svc\<lparr>abortControllers :=
                     (abortControllers svc)(generateCacheKey a \<mapsto> length (apiRequests svc)),
                  apiRequests := apiRequests svc @ [a],
                  pendingRequests :=
                     (pendingRequests svc)(generateCacheKey a \<mapsto> length (apiRequests svc))\<rparr>)"
  using assms
  by (simp add: generateCompletion_def generateCompletion_start_def
      generateCompletion_resume_def Let_def)

lemma settled_request_is_cached:
  "pendingRequests (request_settled k a (Inr resp) t svc) k = None"
  "now < t + 86400000 \<Longrightarrow>
     getCachedCompletion k now (request_settled k a (Inr resp) t svc)
       = Some \<lparr> text' = text' resp, usage = None \<rparr>"
  "apiRequests (request_settled k a outcome t svc) = apiRequests svc"
  by (simp_all add: request_settled_def saveCompletionCache_def getCachedCompletion_def
      Let_def split: sum.splits)

lemma trim_cool_prompt: "trim (ascii ''Summarise the plan '') = ascii ''Summarise the plan''"
  by (simp add: trim_def ascii_def is_space_def)

lemma trim_hot_prompt: "trim (ascii ''Summarise the plan'') = ascii ''Summarise the plan''"
  by (simp add: trim_def ascii_def is_space_def)

lemma trim_cool_context: "trim (ascii '' Q1 roadmap'') = ascii ''Q1 roadmap''"
  by (simp add: trim_def ascii_def is_space_def)

lemma trim_hot_context: "trim (ascii ''Q1 roadmap  '') = ascii ''Q1 roadmap''"
  by (simp add: trim_def ascii_def is_space_def)

lemma cool_hot_fields:
  "trim (CompletionRequest.prompt cool_request) = trim (CompletionRequest.prompt hot_request)"
  "map_option trim (CompletionRequest.context' cool_request)
     = map_option trim (CompletionRequest.context' hot_request)"
  "CompletionRequest.language cool_request = CompletionRequest.language hot_request"
  "maxTokens cool_request = maxTokens hot_request"
  by (simp_all add: cool_request_def hot_request_def trim_cool_prompt trim_hot_prompt
      trim_cool_context trim_hot_context)

lemma cool_hot_key: "generateCacheKey hot_request = generateCacheKey cool_request"
  using same_fields_same_key [OF cool_hot_fields] by simp

text \<open>
  C10, as stated, fails. The two requests differ in temperature and stream only. With the
  response of the first cached at time 1000, the second, made when that entry has expired,
  is not answered from the cache: it issues a remote call. And when the two are made at
  once, the second is not joined to the first: two remote calls are issued.
\<close>

theorem second_request_served_counterexample:
  "temperature cool_request \<noteq> temperature hot_request
   \<and> stream cool_request \<noteq> stream hot_request
   \<and> cache warm_service (generateCacheKey cool_request) \<noteq> None
   \<and> fst (generateCompletion hot_request 86401000 warm_service) = Awaits 0
   \<and> apiRequests (snd (generateCompletion hot_request 86401000 warm_service)) = [hot_request]
   \<and> (case two_calls_at_once cool_request hot_request 0 empty_service of
         (r1, r2, svc) \<Rightarrow>
           r1 = Awaits 0 \<and> r2 = Awaits 1 \<and> apiRequests svc = [cool_request, hot_request])"
proof -
  have d: "temperature cool_request \<noteq> temperature hot_request
             \<and> stream cool_request \<noteq> stream hot_request"
    by (simp add: cool_request_def hot_request_def)
  have held: "cache warm_service (generateCacheKey cool_request) \<noteq> None"
    by (simp add: warm_service_def saveCompletionCache_def)
  have p: "pendingRequests warm_service (generateCacheKey hot_request) = None"
    by (simp add: warm_service_def saveCompletionCache_def empty_service_def)
  have c: "getCachedCompletion (generateCacheKey hot_request) 86401000 warm_service = None"
    by (simp add: cool_hot_key getCachedCompletion_def warm_service_def saveCompletionCache_def)
  have n: "apiRequests warm_service = []"
    by (simp add: warm_service_def saveCompletionCache_def empty_service_def)
  have late: "fst (generateCompletion hot_request 86401000 warm_service) = Awaits 0
      \<and> apiRequests (snd (generateCompletion hot_request 86401000 warm_service)) = [hot_request]"
    using first_request_is_registered [OF p c] by (simp add: n)
  have at_once:
    "(case two_calls_at_once cool_request hot_request 0 empty_service of
         (r1, r2, svc) \<Rightarrow>
           r1 = Awaits 0 \<and> r2 = Awaits 1 \<and> apiRequests svc = [cool_request, hot_request])"
    by (simp add: two_calls_at_once_def generateCompletion_start_def
        generateCompletion_resume_def empty_service_def getCachedCompletion_def Let_def)
  show ?thesis using d held late at_once by simp
qed

text \<open>
  C10, amended. The cache key is a function of the trimmed prompt, the trimmed context, the
  language and the token budget: two requests that agree on these four have the same key,
  whatever their temperature and stream flag are. So when the first request finds nothing
  pending and nothing cached under the key, it issues one remote call and is registered as
  pending, and a second request made while it is registered is handed the same request
  promise; once the first has been answered, a second request made before the cached
  entry expires, 24 hours later, is answered with the cached response. In both cases the
  second request issues no remote call. The same holds in every state in which a request is
  pending, or an unexpired response is cached, under the key.
\<close>

theorem cache_key_ignores_temperature_and_stream:
  assumes "trim (CompletionRequest.prompt a) = trim (CompletionRequest.prompt b)"
    and "map_option trim (CompletionRequest.context' a)
           = map_option trim (CompletionRequest.context' b)"
    and "CompletionRequest.language a = CompletionRequest.language b"
    and "maxTokens a = maxTokens b"
  shows "generateCacheKey a = generateCacheKey b
    \<and> (\<forall>p. pendingRequests svc (generateCacheKey a) = Some p
            \<longrightarrow> generateCompletion b now svc = (Awaits p, svc))
    \<and> (\<forall>resp. pendingRequests svc (generateCacheKey a) = None
               \<and> getCachedCompletion (generateCacheKey a) now svc = Some resp
            \<longrightarrow> generateCompletion b now svc = (Settled resp, svc))
    \<and> (pendingRequests svc (generateCacheKey a) = None
         \<and> getCachedCompletion (generateCacheKey a) now svc = None
        \<longrightarrow> fst (generateCompletion a now svc) = Awaits (length (apiRequests svc))
            \<and> apiRequests (snd (generateCompletion a now svc)) = apiRequests svc @ [a]
            \<and> generateCompletion b later (snd (generateCompletion a now svc))
                = (Awaits (length (apiRequests svc)), snd (generateCompletion a now svc)))
    \<and> (later < t + 86400000
        \<longrightarrow> generateCompletion b later
              (request_settled (generateCacheKey a) a (Inr resp') t svc)
            = (Settled \<lparr> text' = text' resp', usage = None \<rparr>,
               request_settled (generateCacheKey a) a (Inr resp') t svc))"
proof -
  have k: "generateCacheKey a = generateCacheKey b"
    using assms by (rule same_fields_same_key)
  have first: "fst (generateCompletion a now svc) = Awaits (length (apiRequests svc))
            \<and> apiRequests (snd (generateCompletion a now svc)) = apiRequests svc @ [a]
            \<and> generateCompletion b later (snd (generateCompletion a now svc))
                = (Awaits (length (apiRequests svc)), snd (generateCompletion a now svc))"
    if "pendingRequests svc (generateCacheKey a) = None"
      and "getCachedCompletion (generateCacheKey a) now svc = None"
  proof -
    note r = first_request_is_registered [OF that]
    have "pendingRequests (snd (generateCompletion a now svc)) (generateCacheKey b)
            = Some (length (apiRequests svc))"
      using r k by simp
    from registered_request_is_joined [OF this, of later] r show ?thesis by simp
  qed
  have answered: "generateCompletion b later
              (request_settled (generateCacheKey a) a (Inr resp') t svc)
            = (Settled \<lparr> text' = text' resp', usage = None \<rparr>,
               request_settled (generateCacheKey a) a (Inr resp') t svc)"
    if "later < t + 86400000"
    using cached_response_is_served
        [of "request_settled (generateCacheKey a) a (Inr resp') t svc" b later
            "\<lparr> text' = text' resp', usage = None \<rparr>"]
      settled_request_is_cached(1) [of "generateCacheKey a" a resp' t svc]
      settled_request_is_cached(2) [OF that, of "generateCacheKey a" a resp' svc]
      k
    by simp
  show ?thesis
    using k registered_request_is_joined [of svc b] cached_response_is_served [of svc b]
      first answered
    by simp
qed

theorem cache_key_ignores_temperature_and_stream_witness:
  "temperature cool_request \<noteq> temperature hot_request
   \<and> stream cool_request \<noteq> stream hot_request
   \<and> generateCacheKey cool_request = generateCacheKey hot_request
   \<and> generateCompletion hot_request 5 joining_service = (Awaits 7, joining_service)
   \<and> generateCompletion hot_request 2000 warm_service
       = (Settled \<lparr> text' = ascii ''Ship in March'', usage = None \<rparr>, warm_service)
   \<and> fst (generateCompletion cool_request 0 empty_service) = Awaits 0
   \<and> apiRequests (snd (generateCompletion cool_request 0 empty_service)) = [cool_request]
   \<and> generateCompletion hot_request 5 (snd (generateCompletion cool_request 0 empty_service))
       = (Awaits 0, snd (generateCompletion cool_request 0 empty_service))
   \<and> fst (generateCompletion hot_request 2000
             (request_settled (generateCacheKey cool_request) cool_request
                (Inr \<lparr> text' = ascii ''Ship in March'', usage = Some (12, 3, 15) \<rparr>) 1000
                (snd (generateCompletion cool_request 0 empty_service))))
       = Settled \<lparr> text' = ascii ''Ship in March'', usage = None \<rparr>
   \<and> apiRequests (snd (generateCompletion hot_request 2000
             (request_settled (generateCacheKey cool_request) cool_request
                (Inr \<lparr> text' = ascii ''Ship in March'', usage = Some (12, 3, 15) \<rparr>) 1000
                (snd (generateCompletion cool_request 0 empty_service)))))
       = [cool_request]"
proof -
  note h = cool_hot_fields
  have p: "pendingRequests joining_service (generateCacheKey cool_request) = Some 7"
    by (simp add: joining_service_def)
  have q: "pendingRequests warm_service (generateCacheKey cool_request) = None"
    by (simp add: warm_service_def saveCompletionCache_def empty_service_def)
  have c: "getCachedCompletion (generateCacheKey cool_request) 2000 warm_service
             = Some \<lparr> text' = ascii ''Ship in March'', usage = None \<rparr>"
    by (simp add: getCachedCompletion_def warm_service_def saveCompletionCache_def)
  have d: "temperature cool_request \<noteq> temperature hot_request
             \<and> stream cool_request \<noteq> stream hot_request"
    by (simp add: cool_request_def hot_request_def)
  have e: "pendingRequests empty_service (generateCacheKey cool_request) = None"
    "getCachedCompletion (generateCacheKey cool_request) 0 empty_service = None"
    "apiRequests empty_service = []"
    by (simp_all add: empty_service_def getCachedCompletion_def)
  have l: "(2000::nat) < 1000 + 86400000" by simp
  let ?svc1 = "snd (generateCompletion cool_request 0 empty_service)"
  let ?resp = "\<lparr> text' = ascii ''Ship in March'', usage = Some (12, 3, 15) \<rparr>"
  let ?svc2 = "request_settled (generateCacheKey cool_request) cool_request (Inr ?resp) 1000 ?svc1"
  note T = cache_key_ignores_temperature_and_stream [OF h]
  have a1: "apiRequests ?svc1 = [cool_request]"
    using first_request_is_registered [OF e(1,2)] by (simp add: e(3))
  have w0: "generateCacheKey cool_request = generateCacheKey hot_request"
    using T [where svc = empty_service] by blast
  have w1: "generateCompletion hot_request 5 joining_service = (Awaits 7, joining_service)"
    using T [where svc = joining_service and now = 5] p by blast
  have w2: "generateCompletion hot_request 2000 warm_service
       = (Settled \<lparr> text' = ascii ''Ship in March'', usage = None \<rparr>, warm_service)"
    using T [where svc = warm_service and now = 2000] q c by blast
  have w3: "fst (generateCompletion cool_request 0 empty_service) = Awaits 0
      \<and> generateCompletion hot_request 5 ?svc1 = (Awaits 0, ?svc1)"
    using T [where svc = empty_service and now = 0 and later = 5] e by simp
  have "generateCompletion hot_request 2000 ?svc2
          = (Settled \<lparr> text' = text' ?resp, usage = None \<rparr>, ?svc2)"
    using T [where svc = ?svc1 and now = 0 and later = 2000 and t = 1000 and resp' = ?resp] l
    by blast
  then have w4: "generateCompletion hot_request 2000 ?svc2
              = (Settled \<lparr> text' = ascii ''Ship in March'', usage = None \<rparr>, ?svc2)"
    by simp
  have a2: "apiRequests ?svc2 = [cool_request]"
    using a1 by (simp add: settled_request_is_cached(3))
  show ?thesis
    using d w0 w1 w2 w3 w4 a1 a2 by simp
qed

text \<open>
  C8 on two identical requests made at once, with nothing cached and nothing pending:
  each call finds no pending request before it is suspended, so each continuation
  issues its own remote call, and the two callers hold different request promises.
\<close>

theorem two_identical_requests_at_once_call_twice:
  "(case two_calls_at_once (plain_request (ascii ''hi'')) (plain_request (ascii ''hi'')) 0
           empty_service of
      (r1, r2, svc) \<Rightarrow>
        r1 = Awaits 0 \<and> r2 = Awaits 1
        \<and> apiRequests svc = [plain_request (ascii ''hi''), plain_request (ascii ''hi'')])"
  by (simp add: two_calls_at_once_def generateCompletion_start_def generateCompletion_resume_def
      empty_service_def getCachedCompletion_def Let_def)

section \<open>Tables\<close>

lemma get_row_replaced:
  "get_row kf t k \<noteq> None \<Longrightarrow> kf r' = k
     \<Longrightarrow> get_row kf (map (\<lambda>x. if kf x = k then r' else x) t) k = Some r'"
  by (induction t) (auto simp: get_row_def)

lemma get_row_replaced_other:
  "k' \<noteq> k \<Longrightarrow> kf r' = k
     \<Longrightarrow> get_row kf (map (\<lambda>x. if kf x = k then r' else x) t) k' = get_row kf t k'"
  by (induction t) (auto simp: get_row_def)

lemma get_row_key: "get_row kf t k = Some r \<Longrightarrow> kf r = k"
  by (induction t) (auto simp: get_row_def split: if_splits)

lemma get_row_mem: "get_row kf t k = Some r \<Longrightarrow> r \<in> set t"
  by (induction t) (auto simp: get_row_def split: if_splits)

lemma get_row_append:
  "get_row kf (t @ u) k = (case get_row kf t k of None \<Rightarrow> get_row kf u k | Some r \<Rightarrow> Some r)"
  by (induction t) (auto simp: get_row_def)

lemma get_row_None: "get_row kf t k = None \<longleftrightarrow> k \<notin> kf ` set t"
  by (auto simp: get_row_def find_None_iff)

lemma original_id_not_indexed:
  "where_equals sync_queue_schema ''original_id'' f v t
     = Inl (not_indexed ''original_id'' ''sync_queue'')"
  by (simp add: where_equals_def sync_queue_schema_def)

section \<open>The sync status of a record\<close>


lemma status_update_total:
  "\<exists>t'. update_row offline_base.id' t i (status_changes status now) = Inr t'"
proof (cases "get_row offline_base.id' t i")
  case None
  then show ?thesis by (simp add: update_row_def)
next
  case (Some r)
  then have "offline_base.id' r = i" by (rule get_row_key)
  with Some show ?thesis by (simp add: update_row_def status_changes_def)
qed


lemma updateSyncStatus_store:
  "snd (updateSyncStatus tbl i status err now st) =
     (case tbl of
        Documents \<Rightarrow>
          (case update_row offline_base.id' (documents st) i (status_changes status now) of
             Inl e \<Rightarrow> st | Inr t \<Rightarrow> st\<lparr>documents := t\<rparr>)
      | Projects \<Rightarrow>
          (case update_row offline_base.id' (projects st) i (status_changes status now) of
             Inl e \<Rightarrow> st | Inr t \<Rightarrow> st\<lparr>projects := t\<rparr>)
      | Standard_info \<Rightarrow>
          (case update_row offline_base.id' (standard_info st) i (status_changes status now) of
             Inl e \<Rightarrow> st | Inr t \<Rightarrow> st\<lparr>standard_info := t\<rparr>))"
  by (auto simp: updateSyncStatus_def original_id_not_indexed split: table_name.splits sum.splits)



lemma put_row_get_same: "get_row kf (put_row kf t r) (kf r) = Some r"
proof (cases "kf r \<in> kf ` set t")
  case True
  then have "get_row kf t (kf r) \<noteq> None" by (simp add: get_row_None)
  then show ?thesis using True by (simp add: put_row_def get_row_replaced)
next
  case False
  then have "get_row kf t (kf r) = None" by (simp add: get_row_None)
  then show ?thesis using False by (simp add: put_row_def get_row_append) (simp add: get_row_def)
qed

lemma put_row_get_other: "k \<noteq> kf r \<Longrightarrow> get_row kf (put_row kf t r) k = get_row kf t k"
  by (auto simp: put_row_def get_row_replaced_other get_row_append split: option.splits)
    (simp add: get_row_def)


lemma updateSyncStatus_absent:
  assumes "envelope tbl i st = None"
  shows "snd (updateSyncStatus tbl i status err now st) = st"
  using assms unfolding updateSyncStatus_store
  by (cases tbl) (auto simp: envelope_def envelope_of_def update_row_def)




section \<open>Statistics\<close>

lemma math_max_Max: "xs \<noteq> [] \<Longrightarrow> math_max xs = Max (set xs)"
proof (induction xs)
  case Nil
  then show ?case by simp
next
  case (Cons x xs)
  show ?case
  proof (cases "xs = []")
    case True
    then show ?thesis by (simp add: math_max_def)
  next
    case False
    with Cons have "math_max xs = Max (set xs)" by simp
    with False show ?thesis by (simp add: math_max_def)
  qed
qed

text \<open>
  C6, as stated, fails: with a project synced at time 100 and one document that was never
  synced, the most recent sync across the tables is 100, and \<^verbatim>\<open>getSyncStats\<close> reports 0.
\<close>

theorem lastSyncAt_across_tables_counterexample:
  "map_sum id sync_stats.lastSyncAt (getSyncStats ''u1'' project_synced_store) = Inr (Some 0)
   \<and> spec_lastSyncAt ''u1'' project_synced_store = Some 100"
  by (simp add: getSyncStats_def getUserOfflineDocuments_def getUserOfflineProjects_def
      getUserOfflineStandardInfo_def getPendingSyncItems_def where_equals_def
      documents_schema_def projects_schema_def standard_info_schema_def sync_queue_schema_def
      project_synced_store_def empty_store_def document_row_def project_row_def
      math_max_def sync_time_def spec_lastSyncAt_def sync_times_def)

text \<open>
  C6, amended. \<^verbatim>\<open>getSyncStats\<close> reports, for each of the three tables, the number of the
  user's records and how many of them are synced, pending and in error, and the number of
  the user's queue entries. Its \<open>lastSyncAt\<close> is computed from the user's documents alone:
  "no prior sync" when the user has no document, and otherwise the most recent
  \<^verbatim>\<open>last_sync_at\<close> of the documents, a document that was never synced counting as time 0.
\<close>

theorem getSyncStats_reports:
  "getSyncStats userId st =
     (let docs = filter (\<lambda>r. offline_base.user_id r = userId) (documents st);
          projs = filter (\<lambda>r. offline_base.user_id r = userId) (projects st);
          stds = filter (\<lambda>r. offline_base.user_id r = userId) (standard_info st);
          queue = filter (\<lambda>q. sync_queue_item.user_id q = userId) (sync_queue st)
      in Inr \<lparr> sync_stats.documents =
                 \<lparr> total = length docs,
                   synced = length (filter (\<lambda>r. sync_status r = Synced) docs),
                   pending = length (filter (\<lambda>r. sync_status r = Pending) docs),
                   error = length (filter (\<lambda>r. sync_status r = Error) docs) \<rparr>,
               sync_stats.projects =
                 \<lparr> total = length projs,
                   synced = length (filter (\<lambda>r. sync_status r = Synced) projs),
                   pending = length (filter (\<lambda>r. sync_status r = Pending) projs),
                   error = length (filter (\<lambda>r. sync_status r = Error) projs) \<rparr>,
               standardInfo =
                 \<lparr> total = length stds,
                   synced = length (filter (\<lambda>r. sync_status r = Synced) stds),
                   pending = length (filter (\<lambda>r. sync_status r = Pending) stds),
                   error = length (filter (\<lambda>r. sync_status r = Error) stds) \<rparr>,
               syncQueue = length queue,
               sync_stats.lastSyncAt =
                 (if docs = [] then None
                  else Some (Max (set (map (\<lambda>d. case last_sync_at d of None \<Rightarrow> 0 | Some t \<Rightarrow> t)
                                         docs)))) \<rparr>)"
proof -
  let ?docs = "filter (\<lambda>r. offline_base.user_id r = userId) (documents st)"
  have m: "?docs \<noteq> [] \<Longrightarrow>
             math_max (map sync_time ?docs)
               = Max (set (map (\<lambda>d. case last_sync_at d of None \<Rightarrow> 0 | Some t \<Rightarrow> t) ?docs))"
    using math_max_Max [of "map sync_time ?docs"] by (simp add: sync_time_def [abs_def])
  show ?thesis
    using m
    by (simp add: getSyncStats_def getUserOfflineDocuments_def getUserOfflineProjects_def
        getUserOfflineStandardInfo_def getPendingSyncItems_def where_equals_def
        documents_schema_def projects_schema_def standard_info_schema_def sync_queue_schema_def
        stats_of_def count_status_def Let_def)
qed

section \<open>The pull\<close>

lemma put_all_snoc:
  "put_all now t (rows @ [r]) = put_row offline_base.id' (put_all now t rows) (pulled now r)"
  by (simp add: put_all_def)

lemma pulled_id: "offline_base.id' (pulled now r) = offline_base.id' r"
  by (simp add: pulled_def)

lemma put_all_get_other:
  "k \<notin> offline_base.id' ` set rows
     \<Longrightarrow> get_row offline_base.id' (put_all now t rows) k = get_row offline_base.id' t k"
proof (induction rows rule: rev_induct)
  case Nil
  then show ?case by (simp add: put_all_def)
next
  case (snoc r rows)
  then have "k \<noteq> offline_base.id' (pulled now r)" by (auto simp: pulled_id)
  then have "get_row offline_base.id' (put_all now t (rows @ [r])) k
               = get_row offline_base.id' (put_all now t rows) k"
    unfolding put_all_snoc by (rule put_row_get_other)
  with snoc show ?case by simp
qed

lemma put_all_get_returned:
  "p \<in> set rows
     \<Longrightarrow> \<exists>q \<in> set rows. offline_base.id' q = offline_base.id' p
           \<and> get_row offline_base.id' (put_all now t rows) (offline_base.id' p)
               = Some (pulled now q)"
proof (induction rows rule: rev_induct)
  case Nil
  then show ?case by simp
next
  case (snoc r rows)
  show ?case
  proof (cases "offline_base.id' p = offline_base.id' r")
    case True
    have "get_row offline_base.id' (put_all now t (rows @ [r])) (offline_base.id' (pulled now r))
            = Some (pulled now r)"
      unfolding put_all_snoc by (rule put_row_get_same)
    with True show ?thesis by (auto simp: pulled_id)
  next
    case False
    with snoc.prems have "p \<in> set rows" by auto
    with snoc.IH obtain q where q: "q \<in> set rows" "offline_base.id' q = offline_base.id' p"
      "get_row offline_base.id' (put_all now t rows) (offline_base.id' p) = Some (pulled now q)"
      by blast
    from False have "offline_base.id' p \<noteq> offline_base.id' (pulled now r)"
      by (simp add: pulled_id)
    then have "get_row offline_base.id' (put_all now t (rows @ [r])) (offline_base.id' p)
                 = get_row offline_base.id' (put_all now t rows) (offline_base.id' p)"
      unfolding put_all_snoc by (rule put_row_get_other)
    with q show ?thesis by auto
  qed
qed

lemma put_all_get_distinct:
  assumes "distinct (map offline_base.id' rows)" and "p \<in> set rows"
  shows "get_row offline_base.id' (put_all now t rows) (offline_base.id' p) = Some (pulled now p)"
proof -
  from put_all_get_returned [OF assms(2)] obtain q where q: "q \<in> set rows"
    "offline_base.id' q = offline_base.id' p"
    "get_row offline_base.id' (put_all now t rows) (offline_base.id' p) = Some (pulled now q)"
    by blast
  from assms(1) have "inj_on offline_base.id' (set rows)" by (simp add: distinct_map)
  with q assms(2) have "q = p" by (auto dest: inj_onD)
  with q show ?thesis by simp
qed

lemma put_all_envelope:
  assumes "p \<in> set rows"
  shows "envelope_of (put_all now t rows) (offline_base.id' p) = Some (Synced, Some now)"
    and "\<exists>r. get_row offline_base.id' (put_all now t rows) (offline_base.id' p) = Some r
             \<and> local_updated_at r = now"
  using put_all_get_returned [OF assms, of now t]
  by (auto simp: envelope_of_def pulled_def)

lemma replaced_keeps_others:
  "kf r \<in> S \<Longrightarrow> filter (\<lambda>x. kf x \<notin> S) (map (\<lambda>x. if kf x = kf r then r else x) t)
     = filter (\<lambda>x. kf x \<notin> S) t"
  by (induction t) auto

lemma put_row_keeps_others:
  "kf r \<in> S \<Longrightarrow> filter (\<lambda>x. kf x \<notin> S) (put_row kf t r) = filter (\<lambda>x. kf x \<notin> S) t"
  by (simp add: put_row_def replaced_keeps_others)

lemma put_all_keeps_others:
  "filter (\<lambda>x. offline_base.id' x \<notin> offline_base.id' ` set rows) (put_all now t rows)
     = filter (\<lambda>x. offline_base.id' x \<notin> offline_base.id' ` set rows) t"
proof -
  have "set rows' \<subseteq> set rows \<Longrightarrow>
          filter (\<lambda>x. offline_base.id' x \<notin> offline_base.id' ` set rows) (put_all now t rows')
            = filter (\<lambda>x. offline_base.id' x \<notin> offline_base.id' ` set rows) t" for rows'
  proof (induction rows' rule: rev_induct)
    case Nil
    then show ?case by (simp add: put_all_def)
  next
    case (snoc r rows')
    then have "offline_base.id' (pulled now r) \<in> offline_base.id' ` set rows"
      by (auto simp: pulled_id)
    then show ?case
      unfolding put_all_snoc using snoc by (simp add: put_row_keeps_others)
  qed
  then show ?thesis by simp
qed

lemma syncFromServer_result:
  assumes "getUserProjects gw uid = Inr ps"
    and "getUserDocuments gw uid = Inr ds"
    and "getUserStandardInfo gw uid = Inr ss"
  shows "syncFromServer gw (Some uid) now st =
           (Inr (), st\<lparr>projects := put_all now (projects st) ps,
                       documents := put_all now (documents st) ds,
                       standard_info := put_all now (standard_info st) ss\<rparr>)"
  using assms by (simp add: syncFromServer_def)

text \<open>
  C4. When the three fetches of the pull succeed, every record the gateway returned is in
  the local table under its identifier, with the status synced and with \<^verbatim>\<open>last_sync_at\<close>
  and \<^verbatim>\<open>local_updated_at\<close> set to the time of the pull; it is the returned record itself
  when the gateway returned no two records with one identifier. The rows whose identifier
  the gateway did not return are the same rows as before, in the same order: the pull
  deletes nothing. The sync queue and the cache are not touched.
\<close>

theorem pull_overwrites_returned_and_keeps_the_rest:
  assumes "getUserProjects gw uid = Inr ps"
    and "getUserDocuments gw uid = Inr ds"
    and "getUserStandardInfo gw uid = Inr ss"
    and "st' = snd (syncFromServer gw (Some uid) now st)"
  shows "fst (syncFromServer gw (Some uid) now st) = Inr ()
    \<and> (\<forall>p \<in> set ps. envelope Projects (offline_base.id' p) st' = Some (Synced, Some now)
          \<and> (\<exists>r. get_row offline_base.id' (projects st') (offline_base.id' p) = Some r
                   \<and> local_updated_at r = now)
          \<and> (distinct (map offline_base.id' ps) \<longrightarrow>
                get_row offline_base.id' (projects st') (offline_base.id' p)
                  = Some (p\<lparr>sync_status := Synced, last_sync_at := Some now,
                             local_updated_at := now\<rparr>)))
    \<and> (\<forall>d \<in> set ds. envelope Documents (offline_base.id' d) st' = Some (Synced, Some now)
          \<and> (\<exists>r. get_row offline_base.id' (documents st') (offline_base.id' d) = Some r
                   \<and> local_updated_at r = now)
          \<and> (distinct (map offline_base.id' ds) \<longrightarrow>
                get_row offline_base.id' (documents st') (offline_base.id' d)
                  = Some (d\<lparr>sync_status := Synced, last_sync_at := Some now,
                             local_updated_at := now\<rparr>)))
    \<and> (\<forall>s \<in> set ss. envelope Standard_info (offline_base.id' s) st' = Some (Synced, Some now)
          \<and> (\<exists>r. get_row offline_base.id' (standard_info st') (offline_base.id' s) = Some r
                   \<and> local_updated_at r = now)
          \<and> (distinct (map offline_base.id' ss) \<longrightarrow>
                get_row offline_base.id' (standard_info st') (offline_base.id' s)
                  = Some (s\<lparr>sync_status := Synced, last_sync_at := Some now,
                             local_updated_at := now\<rparr>)))
    \<and> filter (\<lambda>r. offline_base.id' r \<notin> offline_base.id' ` set ps) (projects st')
        = filter (\<lambda>r. offline_base.id' r \<notin> offline_base.id' ` set ps) (projects st)
    \<and> filter (\<lambda>r. offline_base.id' r \<notin> offline_base.id' ` set ds) (documents st')
        = filter (\<lambda>r. offline_base.id' r \<notin> offline_base.id' ` set ds) (documents st)
    \<and> filter (\<lambda>r. offline_base.id' r \<notin> offline_base.id' ` set ss) (standard_info st')
        = filter (\<lambda>r. offline_base.id' r \<notin> offline_base.id' ` set ss) (standard_info st)
    \<and> sync_queue st' = sync_queue st
    \<and> store.cache st' = store.cache st"
proof -
  note res = syncFromServer_result [OF assms(1-3), of now st]
  have st': "projects st' = put_all now (projects st) ps"
    "documents st' = put_all now (documents st) ds"
    "standard_info st' = put_all now (standard_info st) ss"
    "sync_queue st' = sync_queue st" "store.cache st' = store.cache st"
    using res assms(4) by simp_all
  have ok: "fst (syncFromServer gw (Some uid) now st) = Inr ()"
    using res by simp
  have P: "\<forall>p \<in> set ps. envelope Projects (offline_base.id' p) st' = Some (Synced, Some now)
          \<and> (\<exists>r. get_row offline_base.id' (projects st') (offline_base.id' p) = Some r
                   \<and> local_updated_at r = now)
          \<and> (distinct (map offline_base.id' ps) \<longrightarrow>
                get_row offline_base.id' (projects st') (offline_base.id' p)
                  = Some (p\<lparr>sync_status := Synced, last_sync_at := Some now,
                             local_updated_at := now\<rparr>))"
    using put_all_envelope [of _ ps now "projects st"]
      put_all_get_distinct [of ps _ now "projects st"]
    by (simp add: envelope_def st' pulled_def)
  have D: "\<forall>d \<in> set ds. envelope Documents (offline_base.id' d) st' = Some (Synced, Some now)
          \<and> (\<exists>r. get_row offline_base.id' (documents st') (offline_base.id' d) = Some r
                   \<and> local_updated_at r = now)
          \<and> (distinct (map offline_base.id' ds) \<longrightarrow>
                get_row offline_base.id' (documents st') (offline_base.id' d)
                  = Some (d\<lparr>sync_status := Synced, last_sync_at := Some now,
                             local_updated_at := now\<rparr>))"
    using put_all_envelope [of _ ds now "documents st"]
      put_all_get_distinct [of ds _ now "documents st"]
    by (simp add: envelope_def st' pulled_def)
  have S: "\<forall>s \<in> set ss. envelope Standard_info (offline_base.id' s) st' = Some (Synced, Some now)
          \<and> (\<exists>r. get_row offline_base.id' (standard_info st') (offline_base.id' s) = Some r
                   \<and> local_updated_at r = now)
          \<and> (distinct (map offline_base.id' ss) \<longrightarrow>
                get_row offline_base.id' (standard_info st') (offline_base.id' s)
                  = Some (s\<lparr>sync_status := Synced, last_sync_at := Some now,
                             local_updated_at := now\<rparr>))"
    using put_all_envelope [of _ ss now "standard_info st"]
      put_all_get_distinct [of ss _ now "standard_info st"]
    by (simp add: envelope_def st' pulled_def)
  have F: "filter (\<lambda>r. offline_base.id' r \<notin> offline_base.id' ` set ps) (projects st')
        = filter (\<lambda>r. offline_base.id' r \<notin> offline_base.id' ` set ps) (projects st)"
    "filter (\<lambda>r. offline_base.id' r \<notin> offline_base.id' ` set ds) (documents st')
        = filter (\<lambda>r. offline_base.id' r \<notin> offline_base.id' ` set ds) (documents st)"
    "filter (\<lambda>r. offline_base.id' r \<notin> offline_base.id' ` set ss) (standard_info st')
        = filter (\<lambda>r. offline_base.id' r \<notin> offline_base.id' ` set ss) (standard_info st)"
    by (simp_all add: st' put_all_keeps_others)
  show ?thesis
    using ok P D S F st'(4,5) by blast
qed

lemma row_ids:
  "offline_base.id' (project_row i u s l) = i"
  "offline_base.id' (document_row i u s l) = i"
  "offline_base.id' (standard_row i u s l) = i"
  by (simp_all add: project_row_def document_row_def standard_row_def)

theorem pull_overwrites_returned_and_keeps_the_rest_witness:
  "fst (syncFromServer snapshot_gateway (Some ''u1'') 500 local_store) = Inr ()
   \<and> envelope Projects ''p1'' (snd (syncFromServer snapshot_gateway (Some ''u1'') 500 local_store))
       = Some (Synced, Some 500)
   \<and> envelope Documents ''d1'' (snd (syncFromServer snapshot_gateway (Some ''u1'') 500 local_store))
       = Some (Synced, Some 500)
   \<and> filter (\<lambda>r. offline_base.id' r \<noteq> ''p1'')
        (projects (snd (syncFromServer snapshot_gateway (Some ''u1'') 500 local_store)))
       = [project_row ''temp_9'' ''u1'' Pending None]
   \<and> filter (\<lambda>r. offline_base.id' r \<noteq> ''d1'')
        (documents (snd (syncFromServer snapshot_gateway (Some ''u1'') 500 local_store)))
       = [document_row ''d7'' ''u1'' Pending None]
   \<and> standard_info (snd (syncFromServer snapshot_gateway (Some ''u1'') 500 local_store))
       = [standard_row ''s1'' ''u1'' Error None]"
proof -
  have h1: "getUserProjects snapshot_gateway ''u1'' = Inr [project_row ''p1'' ''u1'' Pending None]"
    and h2: "getUserDocuments snapshot_gateway ''u1'' = Inr [document_row ''d1'' ''u1'' Pending None]"
    and h3: "getUserStandardInfo snapshot_gateway ''u1'' = Inr []"
    by (simp_all add: snapshot_gateway_def)
  have l1: "projects local_store
              = [project_row ''p1'' ''u1'' Error None, project_row ''temp_9'' ''u1'' Pending None]"
    and l2: "documents local_store = [document_row ''d7'' ''u1'' Pending None]"
    and l3: "standard_info local_store = [standard_row ''s1'' ''u1'' Error None]"
    by (simp_all add: local_store_def empty_store_def)
  show ?thesis
    using pull_overwrites_returned_and_keeps_the_rest [OF h1 h2 h3 refl, of 500 local_store]
    by (simp add: l1 l2 l3 row_ids)
qed

section \<open>The push\<close>

































section \<open>Placeholder identifiers\<close>

lemma updateSyncStatus_no_error:
  "fst (updateSyncStatus tbl i s None now st) = Inr ()"
  using status_update_total [of "documents st" i s now]
    status_update_total [of "projects st" i s now]
    status_update_total [of "standard_info st" i s now]
  by (cases tbl) (auto simp: updateSyncStatus_def)

text \<open>
  The loop over the documents does what the spec asks of every table: when the gateway
  created the row under a fresh identifier, the placeholder row is gone and exactly one
  row, synced, carries the new identifier.
\<close>

lemma pushDocument_swaps_placeholder:
  assumes placeholder: "\<not> is_server_id (offline_base.id' d)"
    and stored: "get_row offline_base.id' (documents st) (offline_base.id' d) = Some d"
    and created: "\<And>c. respond gw (length calls) c = Inr newId"
    and fresh: "newId \<notin> offline_base.id' ` set (documents st)"
  shows "fst (pushDocument gw uid now d (st, calls)) = Inr ()"
    and "documents (fst (snd (pushDocument gw uid now d (st, calls))))
           = filter (\<lambda>r. offline_base.id' r \<noteq> offline_base.id' d) (documents st)
             @ [d\<lparr>offline_base.id' := newId, sync_status := Synced\<rparr>]"
    and "get_row offline_base.id' (documents (fst (snd (pushDocument gw uid now d (st, calls)))))
           (offline_base.id' d) = None"
    and "filter (\<lambda>r. offline_base.id' r = newId)
           (documents (fst (snd (pushDocument gw uid now d (st, calls)))))
           = [d\<lparr>offline_base.id' := newId, sync_status := Synced\<rparr>]"
proof -
  let ?d' = "d\<lparr>offline_base.id' := newId, sync_status := Synced\<rparr>"
  let ?t = "filter (\<lambda>r. offline_base.id' r \<noteq> offline_base.id' d) (documents st) @ [?d']"
  let ?st1 = "st\<lparr>documents := ?t\<rparr>"
  from stored have "d \<in> set (documents st)" by (rule get_row_mem)
  with fresh have ne: "newId \<noteq> offline_base.id' d" by auto
  have swap: "update_row offline_base.id' (documents st) (offline_base.id' d)
                (\<lambda>r. Some (r\<lparr>offline_base.id' := newId, sync_status := Synced\<rparr>)) = Inr ?t"
    using stored fresh ne by (simp add: update_row_def add_row_def delete_row_def)
  have gone: "get_row offline_base.id' ?t (offline_base.id' d) = None"
    using ne by (auto simp: get_row_None)
  then have absent: "envelope Documents (offline_base.id' d) ?st1 = None"
    by (simp add: envelope_def envelope_of_def)
  have marked: "updateSyncStatus Documents (offline_base.id' d) Synced None now ?st1
                  = (Inr (), ?st1)"
    using updateSyncStatus_no_error [of Documents "offline_base.id' d" Synced now ?st1]
      updateSyncStatus_absent [OF absent, of Synced None now]
    by (cases "updateSyncStatus Documents (offline_base.id' d) Synced None now ?st1") simp
  have run: "pushDocument gw uid now d (st, calls)
               = (Inr (), ?st1, calls @ [InsertRow Documents
                    [(''title'', JStr (offline_document.title d)),
                     (''content'', JStr (offline_document.content d)),
                     (''project_id'', JStr (project_id d)),
                     (''user_id'', JStr uid),
                     (''is_public'', JBool (is_public d)),
                     (''tags'', tags_json (tags d)),
                     (''metadata'', any_json (offline_document.metadata d))]])"
    using placeholder created swap marked
    by (simp add: pushDocument_def createDocument_def throwing_call_def settle_push_def)
  show "fst (pushDocument gw uid now d (st, calls)) = Inr ()"
    using run by simp
  show tbl: "documents (fst (snd (pushDocument gw uid now d (st, calls)))) = ?t"
    using run by simp
  show "get_row offline_base.id' (documents (fst (snd (pushDocument gw uid now d (st, calls)))))
          (offline_base.id' d) = None"
    using gone tbl by simp
  have "filter (\<lambda>r. offline_base.id' r = newId) (documents st) = []"
    using fresh by (auto simp: filter_empty_conv)
  then have "filter (\<lambda>r. offline_base.id' r = newId) ?t = [?d']"
    using fresh by (auto simp: filter_empty_conv)
  then show "filter (\<lambda>r. offline_base.id' r = newId)
           (documents (fst (snd (pushDocument gw uid now d (st, calls))))) = [?d']"
    using tbl by simp
qed

text \<open>
  C1 on the spec's own scenario, the locally created project \<open>temp_abc\<close>. The gateway
  creates the row, but the response of the project service has no \<^verbatim>\<open>id\<close>, the
  identifier swap is rejected, and the handler's query on the queue is rejected in turn:
  the cycle ends with an error, the placeholder stays, in error, with no row \<open>srv_1\<close>.
  The next cycle does not push it again and pulls \<open>srv_1\<close> beside it. A locally created
  standard-info record is created remotely and marked synced under its placeholder
  identifier, and the pull of the same cycle stores the server's row beside it.
\<close>

theorem placeholder_survives_create:
  "(case syncData creating_gateway (Some ''u1'') 500 (online, placeholder_project_store, []) of
      (s, st, calls) \<Rightarrow>
        summary (projects st) = [(''temp_abc'', Error, None)]
        \<and> length calls = 1
        \<and> syncError s = Some ''KeyPath original_id on object store sync_queue is not indexed'')
   \<and> (case syncData creating_gateway (Some ''u1'') 900
            (syncData creating_gateway (Some ''u1'') 500 (online, placeholder_project_store, [])) of
      (s, st, calls) \<Rightarrow>
        summary (projects st) = [(''temp_abc'', Error, None), (''srv_1'', Synced, Some 900)]
        \<and> length calls = 1)
   \<and> (case syncData creating_gateway (Some ''u1'') 500 (online, placeholder_standard_store, []) of
      (s, st, calls) \<Rightarrow>
        summary (standard_info st)
          = [(''temp_s1'', Synced, Some 500), (''srv_1'', Synced, Some 500)]
        \<and> length calls = 1
        \<and> syncError s = None)"
  by code_simp

text \<open>
  C2 on two pending documents, the first of which the gateway cannot be reached for. The
  first document is marked as failed; then the handler looks its queue entries up by
  \<^verbatim>\<open>original_id\<close>, which the queue's schema does not index, and the rejected query
  leaves the loop: no retry count is incremented, no message is recorded, the second
  document is never pushed and stays pending, and the cycle ends with an error. In the
  projects table a failed remote update goes unnoticed, because the project service
  returns its error instead of throwing it: the project is marked synced.
\<close>

theorem failed_push_aborts_the_batch:
  "(case syncData failing_first_gateway (Some ''u1'') 500 (online, two_documents_store, []) of
      (s, st, calls) \<Rightarrow>
        summary (documents st) = [(''doc_1'', Error, None), (''doc_2'', Pending, None)]
        \<and> queue_summary (sync_queue st)
            = [(''doc_1'', Update, 0, None), (''doc_2'', Update, 0, None)]
        \<and> length calls = 1
        \<and> syncError s = Some ''KeyPath original_id on object store sync_queue is not indexed'')
   \<and> (case syncData failing_first_gateway (Some ''u1'') 500 (online, one_project_store, []) of
      (s, st, calls) \<Rightarrow>
        summary (projects st) = [(''proj_1'', Synced, Some 500)]
        \<and> queue_summary (sync_queue st) = [(''proj_1'', Update, 0, None)]
        \<and> length calls = 1
        \<and> syncError s = None)"
  by code_simp

section \<open>The sync timestamp\<close>














end
